theory Spec2Isabelle
  imports Main
begin

section \<open>Data model of server.js\<close>

text \<open>
  The values that reach the code from outside (JSON body fields, environment variables,
  the request's network address) are strings or absent, as the README's example request
  shows. \<open>Undefined\<close> is JavaScript's \<open>undefined\<close>; the only falsy values of this type
  are \<open>Undefined\<close> and the empty string.
\<close>

datatype jsval = Undefined | Str string

fun truthy :: "jsval \<Rightarrow> bool" where
  "truthy Undefined = False"
| "truthy (Str s) = (s \<noteq> [])"

text \<open>JavaScript's \<open>a || b\<close>: the left operand when it is truthy, else the right one.\<close>

definition js_or :: "jsval \<Rightarrow> jsval \<Rightarrow> jsval" where
  "js_or a b = (if truthy a then a else b)"

text \<open>The environment variables read at lines 11 to 15.\<close>

record env =
  SMTP_HOST :: jsval
  SMTP_USER :: jsval
  SMTP_PASS :: jsval
  ENV_FROM_EMAIL :: jsval

definition FROM_EMAIL :: "env \<Rightarrow> jsval" where
  "FROM_EMAIL e = js_or (ENV_FROM_EMAIL e) (SMTP_USER e)"

definition SMTP_CONFIGURED :: "env \<Rightarrow> bool" where
  "SMTP_CONFIGURED e = (truthy (SMTP_HOST e) \<and> truthy (SMTP_USER e) \<and> truthy (SMTP_PASS e))"

text \<open>
  The object destructured from \<open>req.body\<close>, and the queued item, which is the same three
  fields with the counter \<open>attempts\<close> added (\<open>{ email, username, code, attempts: 0 }\<close>).
\<close>

record payload =
  email :: jsval
  username :: jsval
  code :: jsval

record item = payload +
  attempts :: nat

record request =
  body :: "payload option"
  ip :: jsval
  remoteAddress :: jsval

text \<open>
  The message handed to the transport. Subject, text and html of the source are fixed
  templates over \<open>username\<close> and \<open>code\<close>; the model keeps the interpolated fields, and
  \<open>mail_notice\<close> tells the request path's html template (which ends with one more
  paragraph) from the worker's.
\<close>

record mail =
  mail_from :: jsval
  mail_to :: jsval
  mail_username :: jsval
  mail_code :: jsval
  mail_notice :: bool

text \<open>
  What \<open>transporter.sendMail\<close> does when awaited: the promise fulfils with an info object
  or rejects with an error.
\<close>

datatype send_outcome = Fulfilled string | Threw string

text \<open>The three shapes \<open>retrySend\<close> returns: \<open>{ok: true, info}\<close>, \<open>{ok: false, err}\<close>, \<open>{ok: false}\<close>.\<close>

datatype retry_result = Ok string | NotOk "string option"

datatype event = Sent mail | Slept nat | Console string | Recorded jsval int

text \<open>
  The HTTP answer: the status (200 when \<open>res.json\<close> is called without \<open>res.status\<close>)
  and the fields of the JSON body.
\<close>

record response =
  status :: nat
  ok :: bool
  simulated :: "bool option"
  message :: "string option"

text \<open>
  The state of the process and of its surroundings. \<open>sendAttempts\<close> and \<open>FAILED_QUEUE\<close>
  are the two module-level structures. \<open>clock\<close> is what successive calls of \<open>Date.now()\<close>
  return and \<open>ticks\<close> counts them; \<open>transport\<close> is the outcome of the n-th call of
  \<open>sendMail\<close> and \<open>calls\<close> counts them; \<open>trace\<close> lists the effects of the run in the
  order in which they happen: the messages handed to the transport, the timer delays
  awaited, the console lines written, and the timestamps pushed on the ledger
  (\<open>arr.push(Date.now())\<close> at line 50, with the key it is pushed under).
\<close>

record world =
  sendAttempts :: "jsval \<rightharpoonup> int list"
  FAILED_QUEUE :: "item list"
  clock :: "nat \<Rightarrow> int"
  ticks :: nat
  transport :: "nat \<Rightarrow> mail \<Rightarrow> send_outcome"
  calls :: nat
  trace :: "event list"

definition MAX_ATTEMPTS :: nat where
  "MAX_ATTEMPTS = 3"

definition WINDOW_MS :: int where
  "WINDOW_MS = 15 * 60 * 1000"

definition RETRY_LIMIT :: nat where
  "RETRY_LIMIT = 3"

section \<open>The attempt ledger and the rate limiter\<close>

definition Date_now :: "world \<Rightarrow> int \<times> world" where
  "Date_now w = (clock w (ticks w), w\<lparr>ticks := ticks w + 1\<rparr>)"

text \<open>\<open>sendAttempts.get(key) || []\<close>: an array, even an empty one, is truthy.\<close>

definition stored :: "world \<Rightarrow> jsval \<Rightarrow> int list" where
  "stored w key = (case sendAttempts w key of None \<Rightarrow> [] | Some a \<Rightarrow> a)"

definition cleanupAttempts :: "jsval \<Rightarrow> world \<Rightarrow> int list \<times> world" where
  "cleanupAttempts key w =
     (let (now, w1) = Date_now w;
          arr = stored w1 key;
          filtered = filter (\<lambda>t. now - t < WINDOW_MS) arr
      in (filtered, w1\<lparr>sendAttempts := (sendAttempts w1)(key \<mapsto> filtered)\<rparr>))"

definition recordAttempt :: "jsval \<Rightarrow> world \<Rightarrow> world" where
  "recordAttempt key w =
     (let (arr, w1) = cleanupAttempts key w;
          (now, w2) = Date_now w1
      in w2\<lparr>sendAttempts := (sendAttempts w2)(key \<mapsto> arr @ [now]),
            trace := trace w2 @ [Recorded key now]\<rparr>)"

definition canSend :: "jsval \<Rightarrow> world \<Rightarrow> bool \<times> world" where
  "canSend key w =
     (let (arr, w1) = cleanupAttempts key w
      in (length arr < MAX_ATTEMPTS, w1))"

section \<open>The bounded retry sender\<close>

definition sendMail :: "mail \<Rightarrow> world \<Rightarrow> send_outcome \<times> world" where
  "sendMail m w =
     (transport w (calls w) m, w\<lparr>calls := calls w + 1, trace := trace w @ [Sent m]\<rparr>)"

definition setTimeout :: "nat \<Rightarrow> world \<Rightarrow> world" where
  "setTimeout ms w = w\<lparr>trace := trace w @ [Slept ms]\<rparr>"

definition console :: "string \<Rightarrow> world \<Rightarrow> world" where
  "console line w = w\<lparr>trace := trace w @ [Console line]\<rparr>"

definition delays :: "nat list" where
  "delays = [1000, 3000, 7000]"

text \<open>
  The \<open>while\<close> loop of \<open>retrySend\<close>, with the loop variable \<open>attempt\<close> as an argument.
  A rejected \<open>sendMail\<close> is caught inside the loop, so the loop has no throwing path.
  The index \<open>min (attempt - 1) (length delays - 1)\<close> is always in range.
\<close>

function retryLoop :: "mail \<Rightarrow> nat \<Rightarrow> world \<Rightarrow> retry_result \<times> world" where
  "retryLoop mailOptions attempt w =
     (if attempt < RETRY_LIMIT then
        (case sendMail mailOptions w of
           (Fulfilled info, w1) \<Rightarrow> (Ok info, w1)
         | (Threw e, w1) \<Rightarrow>
             (if attempt + 1 \<ge> RETRY_LIMIT then (NotOk (Some e), w1)
              else retryLoop mailOptions (attempt + 1)
                     (setTimeout (delays ! min (attempt + 1 - 1) (length delays - 1)) w1)))
      else (NotOk None, w))"
  by pat_completeness auto
termination
  by (relation "measure (\<lambda>(m, attempt, w). RETRY_LIMIT - attempt)") auto

definition retrySend :: "mail \<Rightarrow> world \<Rightarrow> retry_result \<times> world" where
  "retrySend mailOptions w = retryLoop mailOptions 0 w"

section \<open>The background worker\<close>

definition worker_mail :: "env \<Rightarrow> item \<Rightarrow> mail" where
  "worker_mail e it =
     \<lparr>mail_from = FROM_EMAIL e, mail_to = email it, mail_username = username it,
      mail_code = code it, mail_notice = False\<rparr>"

text \<open>
  Lines 93 to 100: what the worker does with the outcome of \<open>await retrySend(mail)\<close>.
  \<open>Inl\<close> is an exception reaching the \<open>catch\<close> of line 98, \<open>Inr\<close> a normal return.
\<close>

fun worker_settle :: "item \<Rightarrow> string + retry_result \<Rightarrow> world \<Rightarrow> world" where
  "worker_settle it (Inr (Ok info)) w = w"
| "worker_settle it (Inr (NotOk e)) w =
     w\<lparr>FAILED_QUEUE := FAILED_QUEUE w @ [it\<lparr>attempts := attempts it + 1\<rparr>]\<rparr>"
| "worker_settle it (Inl e) w =
     w\<lparr>FAILED_QUEUE := FAILED_QUEUE w @ [it\<lparr>attempts := attempts it + 1\<rparr>]\<rparr>"

text \<open>
  One run of the callback given to \<open>setInterval\<close> (lines 76 to 101). \<open>shift\<close> takes the
  head of the queue; the test \<open>!item\<close> of line 80 cannot succeed on a non-empty queue
  of objects. \<open>retrySend\<close> returns in every case, so its outcome is passed as \<open>Inr\<close>.
\<close>

definition worker :: "env \<Rightarrow> world \<Rightarrow> world" where
  "worker e w =
     (if \<not> SMTP_CONFIGURED e then w
      else case FAILED_QUEUE w of
        [] \<Rightarrow> w
      | it # rest \<Rightarrow>
          (let w1 = w\<lparr>FAILED_QUEUE := rest\<rparr> in
           if attempts it \<ge> RETRY_LIMIT
           then console ''Dropping failed send after retries for'' w1
           else (let (res, w2) = retrySend (worker_mail e it) w1
                 in worker_settle it (Inr res) w2)))"

section \<open>The request handler\<close>

definition request_mail :: "env \<Rightarrow> payload \<Rightarrow> mail" where
  "request_mail e b =
     \<lparr>mail_from = FROM_EMAIL e, mail_to = email b, mail_username = username b,
      mail_code = code b, mail_notice = True\<rparr>"

definition reply :: "nat \<Rightarrow> bool \<Rightarrow> bool option \<Rightarrow> string option \<Rightarrow> response" where
  "reply st o_k sim msg = \<lparr>status = st, ok = o_k, simulated = sim, message = msg\<rparr>"

definition new_item :: "payload \<Rightarrow> item" where
  "new_item b = \<lparr>email = email b, username = username b, code = code b, attempts = 0\<rparr>"

text \<open>
  Lines 130 to 144: the answer to the outcome of \<open>await retrySend(mail)\<close>, with \<open>Inl\<close> an
  exception reaching the \<open>catch\<close> of line 140.
\<close>

fun handle_settle :: "payload \<Rightarrow> string + retry_result \<Rightarrow> world \<Rightarrow> response \<times> world" where
  "handle_settle b (Inr (Ok info)) w =
     (reply 200 True None None, console ''Email sent:'' w)"
| "handle_settle b (Inr (NotOk e)) w =
     (reply 202 False None (Some ''Queued for retry''),
      (console ''Send failed, queuing for retry'' w)
        \<lparr>FAILED_QUEUE := FAILED_QUEUE w @ [new_item b]\<rparr>)"
| "handle_settle b (Inl e) w =
     (reply 202 False None (Some ''Queued for retry''),
      (console ''Error sending email'' w)
        \<lparr>FAILED_QUEUE := FAILED_QUEUE w @ [new_item b]\<rparr>)"

definition empty_body :: payload where
  "empty_body = \<lparr>email = Undefined, username = Undefined, code = Undefined\<rparr>"

text \<open>\<open>req.body || {}\<close>, and \<open>req.ip || req.connection.remoteAddress || 'unknown'\<close>.\<close>

definition payload_of :: "request \<Rightarrow> payload" where
  "payload_of req = (case body req of None \<Rightarrow> empty_body | Some p \<Rightarrow> p)"

definition ip_key :: "request \<Rightarrow> jsval" where
  "ip_key req = js_or (js_or (ip req) (remoteAddress req)) (Str ''unknown'')"

text \<open>
  The handler of \<open>POST /send-code\<close> (lines 103 to 145). \<open>||\<close> at line 115 is
  short-circuit: \<open>canSend(ip)\<close> runs only when \<open>canSend(email)\<close> returned true.
  Everything up to the first \<open>await\<close> runs without interruption; the model also runs
  \<open>retrySend\<close> and the lines after it in one piece, one request at a time.
\<close>

definition handle :: "env \<Rightarrow> request \<Rightarrow> world \<Rightarrow> response \<times> world" where
  "handle e req w =
     (let b = payload_of req in
      if \<not> truthy (email b) \<or> \<not> truthy (code b) \<or> \<not> truthy (username b)
      then (reply 400 False None (Some ''Missing email, username or code''), w)
      else if \<not> SMTP_CONFIGURED e
      then (reply 200 True (Some True) None, console ''[SIMULATION] send-code'' w)
      else
        (let ipk = ip_key req;
             (c1, w1) = canSend (email b) w
         in if \<not> c1
            then (reply 429 False None (Some ''Too many requests. Try later.''), w1)
            else
              (let (c2, w2) = canSend ipk w1
               in if \<not> c2
                  then (reply 429 False None (Some ''Too many requests. Try later.''), w2)
                  else
                    (let w3 = recordAttempt (email b) w2;
                         w4 = recordAttempt ipk w3;
                         (res, w5) = retrySend (request_mail e b) w4
                     in handle_settle b (Inr res) w5))))"

section \<open>Notions used to state the properties\<close>

fun failed :: "send_outcome \<Rightarrow> bool" where
  "failed (Threw e) = True"
| "failed (Fulfilled i) = False"

fun is_Sent :: "event \<Rightarrow> bool" where
  "is_Sent (Sent m) = True"
| "is_Sent (Slept n) = False"
| "is_Sent (Console l) = False"
| "is_Sent (Recorded k t) = False"

fun is_Recorded :: "event \<Rightarrow> bool" where
  "is_Recorded (Recorded k t) = True"
| "is_Recorded (Sent m) = False"
| "is_Recorded (Slept n) = False"
| "is_Recorded (Console l) = False"

text \<open>The timestamps of a key that are inside the window at the next reading of the clock.\<close>

definition live :: "world \<Rightarrow> jsval \<Rightarrow> int list" where
  "live w key = filter (\<lambda>t. clock w (ticks w) - t < WINDOW_MS) (stored w key)"

text \<open>The timestamps of a key that are not older than \<open>T\<close>.\<close>

definition recent :: "int \<Rightarrow> world \<Rightarrow> jsval \<Rightarrow> int list" where
  "recent T w key = filter (\<lambda>t. T \<le> t) (stored w key)"

text \<open>A request with its three fields present and non-empty.\<close>

definition complete :: "request \<Rightarrow> bool" where
  "complete req =
     (truthy (email (payload_of req)) \<and> truthy (username (payload_of req))
      \<and> truthy (code (payload_of req)))"

text \<open>
  The bounded retry sender as the specification words it: \<open>n\<close> failed attempts, the one
  of index \<open>i\<close> followed by a wait of \<open>delays[min(i, delays.length - 1)]\<close>.
\<close>

fun failed_attempts :: "mail \<Rightarrow> nat \<Rightarrow> event list" where
  "failed_attempts m 0 = []"
| "failed_attempts m (Suc n) =
     failed_attempts m n @ [Sent m, Slept (delays ! min n (length delays - 1))]"

text \<open>
  The admission test of line 115 on a request, and the world in which \<open>retrySend\<close> is
  called once the test has passed (lines 115 to 120 done).
\<close>

definition admitted :: "request \<Rightarrow> world \<Rightarrow> bool" where
  "admitted req w =
     (fst (canSend (email (payload_of req)) w)
      \<and> fst (canSend (ip_key req) (snd (canSend (email (payload_of req)) w))))"

definition recorded :: "request \<Rightarrow> world \<Rightarrow> world" where
  "recorded req w =
     recordAttempt (ip_key req)
       (recordAttempt (email (payload_of req))
          (snd (canSend (ip_key req) (snd (canSend (email (payload_of req)) w)))))"

text \<open>
  Every reading of the clock from the current one up to (excluding) the \<open>N\<close>-th lies in
  one window that starts at \<open>T\<close>.
\<close>

definition in_window :: "int \<Rightarrow> world \<Rightarrow> nat \<Rightarrow> bool" where
  "in_window T w N = (\<forall>n \<in> {ticks w ..< N}. T \<le> clock w n \<and> clock w n - T < WINDOW_MS)"

definition too_many :: response where
  "too_many = reply 429 False None (Some ''Too many requests. Try later.'')"

text \<open>
  No stored timestamp is older than \<open>T\<close>, and no key holds more timestamps than the
  recipient key \<open>em\<close>: what holds of a ledger that was empty at \<open>T\<close> and has served
  requests for that one recipient since.
\<close>

definition fresh_since :: "int \<Rightarrow> jsval \<Rightarrow> world \<Rightarrow> bool" where
  "fresh_since T em w =
     (\<forall>k. (\<forall>t \<in> set (stored w k). T \<le> t) \<and> length (stored w k) \<le> length (stored w em))"

subsection \<open>Sample inputs\<close>

definition env_live :: env where
  "env_live = \<lparr>SMTP_HOST = Str ''smtp.example.com'', SMTP_USER = Str ''mailer'',
               SMTP_PASS = Str ''secret'', ENV_FROM_EMAIL = Str ''no-reply@example.com''\<rparr>"

definition env_sim :: env where
  "env_sim = \<lparr>SMTP_HOST = Undefined, SMTP_USER = Undefined,
              SMTP_PASS = Undefined, ENV_FROM_EMAIL = Undefined\<rparr>"

definition bob :: payload where
  "bob = \<lparr>email = Str ''user@example.com'', username = Str ''bob'', code = Str ''123456''\<rparr>"

definition bob_request :: request where
  "bob_request = \<lparr>body = Some bob, ip = Str ''10.0.0.7'', remoteAddress = Undefined\<rparr>"

definition bob_mail :: mail where
  "bob_mail = request_mail env_live bob"

text \<open>A fresh process whose transport refuses every message; the clock advances 1 ms a reading.\<close>

definition world_down :: world where
  "world_down =
     \<lparr>sendAttempts = Map.empty, FAILED_QUEUE = [], clock = (\<lambda>n. int n), ticks = 0,
      transport = (\<lambda>n m. Threw ''ECONNREFUSED''), calls = 0, trace = []\<rparr>"

text \<open>The same with a transport that accepts every message.\<close>

definition world_up :: world where
  "world_up = world_down\<lparr>transport := (\<lambda>n m. Fulfilled ''250 OK'')\<rparr>"

text \<open>The same with a transport that fails twice and then accepts.\<close>

definition world_flaky :: world where
  "world_flaky =
     world_down\<lparr>transport := (\<lambda>n m. if n < 2 then Threw ''ETIMEDOUT'' else Fulfilled ''250 OK'')\<rparr>"

text \<open>
  More sample states: a queue holding one fresh item; a ledger holding three timestamps for
  the sample recipient; and a clock that stays within one window for nineteen readings and
  is 15 minutes later afterwards, with the states reached by four successive requests.
\<close>

definition world_down_queued :: world where
  "world_down_queued = world_down\<lparr>FAILED_QUEUE := [new_item bob]\<rparr>"

definition world_up_queued :: world where
  "world_up_queued = world_up\<lparr>FAILED_QUEUE := [new_item bob]\<rparr>"

definition world_busy :: world where
  "world_busy =
     world_down\<lparr>sendAttempts := [Str ''user@example.com'' \<mapsto> [0, 0, 0]],
                FAILED_QUEUE := [new_item bob]\<rparr>"

definition world_clock :: world where
  "world_clock = world_down\<lparr>clock := (\<lambda>n. if n < 19 then int n else 900000 + int n)\<rparr>"

definition after1 :: world where "after1 = snd (handle env_live bob_request world_clock)"

definition after2 :: world where "after2 = snd (handle env_live bob_request after1)"

definition after3 :: world where "after3 = snd (handle env_live bob_request after2)"

definition after4 :: world where "after4 = snd (handle env_live bob_request after3)"

section \<open>The bounded retry sender: properties\<close>

lemma retrySend_unrolled:
  "retrySend m w =
    (case transport w (calls w) m of
       Fulfilled i \<Rightarrow> (Ok i, w\<lparr>calls := calls w + 1, trace := trace w @ [Sent m]\<rparr>)
     | Threw e1 \<Rightarrow>
        (case transport w (calls w + 1) m of
           Fulfilled i \<Rightarrow> (Ok i, w\<lparr>calls := calls w + 2,
                               trace := trace w @ [Sent m, Slept 1000, Sent m]\<rparr>)
         | Threw e2 \<Rightarrow>
            (case transport w (calls w + 2) m of
               Fulfilled i \<Rightarrow> (Ok i, w\<lparr>calls := calls w + 3,
                    trace := trace w @ [Sent m, Slept 1000, Sent m, Slept 3000, Sent m]\<rparr>)
             | Threw e3 \<Rightarrow> (NotOk (Some e3), w\<lparr>calls := calls w + 3,
                    trace := trace w @ [Sent m, Slept 1000, Sent m, Slept 3000, Sent m]\<rparr>))))"
  unfolding retrySend_def
  apply (subst retryLoop.simps)
  apply (subst retryLoop.simps)
  apply (subst retryLoop.simps)
  apply (simp add: RETRY_LIMIT_def sendMail_def setTimeout_def delays_def split: send_outcome.splits)
  done

lemma retrySend_frame:
  "sendAttempts (snd (retrySend m w)) = sendAttempts w"
  "FAILED_QUEUE (snd (retrySend m w)) = FAILED_QUEUE w"
  "clock (snd (retrySend m w)) = clock w"
  "ticks (snd (retrySend m w)) = ticks w"
  "transport (snd (retrySend m w)) = transport w"
  by (simp_all add: retrySend_unrolled split: send_outcome.splits)

lemma failed_iff: "failed r = (\<exists>e. r = Threw e)" "(\<not> failed r) = (\<exists>i. r = Fulfilled i)"
  by (cases r; simp)+

lemma all_less_3: "(\<forall>k<3::nat. P k) = (P 0 \<and> P 1 \<and> P 2)"
proof -
  have "\<And>k::nat. k < 3 \<longleftrightarrow> k = 0 \<or> k = 1 \<or> k = 2" by arith
  then show ?thesis by auto
qed

lemma ex_less_3: "(\<exists>k<3::nat. P k) = (P 0 \<or> P 1 \<or> P 2)"
  using all_less_3[of "\<lambda>k. \<not> P k"] by blast

lemma retrySend_exhausted:
  assumes "\<forall>k<RETRY_LIMIT. failed (transport w (calls w + k) m)"
  shows "\<exists>err. transport w (calls w + 2) m = Threw err \<and>
     retrySend m w = (NotOk (Some err),
       w\<lparr>calls := calls w + 3,
         trace := trace w @ [Sent m, Slept 1000, Sent m, Slept 3000, Sent m]\<rparr>)"
proof -
  from assms obtain e1 e2 e3 where
    "transport w (calls w) m = Threw e1" "transport w (calls w + 1) m = Threw e2"
    "transport w (calls w + 2) m = Threw e3"
    by (auto simp: RETRY_LIMIT_def all_less_3 failed_iff)
  then show ?thesis by (simp add: retrySend_unrolled)
qed

lemma retrySend_success:
  assumes "k < RETRY_LIMIT" "\<forall>j<k. failed (transport w (calls w + j) m)"
    "transport w (calls w + k) m = Fulfilled i"
  shows "retrySend m w =
     (Ok i, w\<lparr>calls := calls w + k + 1, trace := trace w @ failed_attempts m k @ [Sent m]\<rparr>)"
proof -
  from assms(1) have "k = 0 \<or> k = 1 \<or> k = 2" unfolding RETRY_LIMIT_def by arith
  then consider "k = 0" | "k = 1" | "k = 2" by blast
  then show ?thesis
  proof cases
    case 1
    with assms show ?thesis by (simp add: retrySend_unrolled)
  next
    case 2
    with assms obtain e1 where "transport w (calls w) m = Threw e1"
      by (auto simp: failed_iff)
    with 2 assms(3) show ?thesis by (simp add: retrySend_unrolled delays_def numeral_2_eq_2)
  next
    case 3
    with assms(2) have "0 < (2::nat) \<longrightarrow> failed (transport w (calls w + 0) m)"
      "1 < (2::nat) \<longrightarrow> failed (transport w (calls w + 1) m)"
      by blast+
    then have "failed (transport w (calls w) m)" "failed (transport w (calls w + 1) m)"
      by simp_all
    then obtain e1 e2 where "transport w (calls w) m = Threw e1" "transport w (calls w + 1) m = Threw e2"
      by (auto simp: failed_iff)
    with 3 assms(3) show ?thesis by (simp add: retrySend_unrolled delays_def numeral_2_eq_2)
  qed
qed

text \<open>
  Claim C3. Against a transport that fails at each of the next \<open>RETRY_LIMIT\<close> (3) calls,
  \<open>retrySend\<close> makes exactly three sends, one after the other, waits 1000 ms after the
  first failure and 3000 ms after the second (the delay of index \<open>min(i, delays.length - 1)\<close>
  after the failed attempt of index \<open>i\<close>), and returns the not-ok result carrying the error
  of the last attempt only after the third send. When the attempt of index \<open>k < 3\<close> is the
  first to succeed, it returns the ok result at once: \<open>k + 1\<close> sends and nothing after
  the successful one.
\<close>

theorem retrySend_bounded:
  "((\<forall>k<RETRY_LIMIT. failed (transport w (calls w + k) m)) \<longrightarrow>
      (\<exists>err. transport w (calls w + (RETRY_LIMIT - 1)) m = Threw err \<and>
         retrySend m w =
           (NotOk (Some err),
            w\<lparr>calls := calls w + RETRY_LIMIT,
              trace := trace w @ failed_attempts m (RETRY_LIMIT - 1) @ [Sent m]\<rparr>)) \<and>
      length (filter is_Sent (failed_attempts m (RETRY_LIMIT - 1) @ [Sent m])) = RETRY_LIMIT \<and>
      failed_attempts m (RETRY_LIMIT - 1) = [Sent m, Slept 1000, Sent m, Slept 3000])
   \<and> (k < RETRY_LIMIT \<and> (\<forall>j<k. failed (transport w (calls w + j) m))
        \<and> transport w (calls w + k) m = Fulfilled i \<longrightarrow>
      retrySend m w =
        (Ok i, w\<lparr>calls := calls w + k + 1, trace := trace w @ failed_attempts m k @ [Sent m]\<rparr>))"
proof (intro conjI impI)
  assume a: "\<forall>k<RETRY_LIMIT. failed (transport w (calls w + k) m)"
  from retrySend_exhausted[OF a]
  show "\<exists>err. transport w (calls w + (RETRY_LIMIT - 1)) m = Threw err \<and>
         retrySend m w =
           (NotOk (Some err),
            w\<lparr>calls := calls w + RETRY_LIMIT,
              trace := trace w @ failed_attempts m (RETRY_LIMIT - 1) @ [Sent m]\<rparr>)"
    by (simp add: RETRY_LIMIT_def delays_def numeral_2_eq_2)
  show "length (filter is_Sent (failed_attempts m (RETRY_LIMIT - 1) @ [Sent m])) = RETRY_LIMIT"
    by (simp add: RETRY_LIMIT_def delays_def numeral_2_eq_2)
  show "failed_attempts m (RETRY_LIMIT - 1) = [Sent m, Slept 1000, Sent m, Slept 3000]"
    by (simp add: RETRY_LIMIT_def delays_def numeral_2_eq_2)
next
  assume "k < RETRY_LIMIT \<and> (\<forall>j<k. failed (transport w (calls w + j) m))
        \<and> transport w (calls w + k) m = Fulfilled i"
  then show "retrySend m w =
        (Ok i, w\<lparr>calls := calls w + k + 1, trace := trace w @ failed_attempts m k @ [Sent m]\<rparr>)"
    using retrySend_success by blast
qed

theorem retrySend_bounded_witness:
  "retrySend bob_mail world_down =
     (NotOk (Some ''ECONNREFUSED''),
      world_down\<lparr>calls := 3,
        trace := [Sent bob_mail, Slept 1000, Sent bob_mail, Slept 3000, Sent bob_mail]\<rparr>)
   \<and> retrySend bob_mail world_flaky =
     (Ok ''250 OK'',
      world_flaky\<lparr>calls := 3,
        trace := [Sent bob_mail, Slept 1000, Sent bob_mail, Slept 3000, Sent bob_mail]\<rparr>)"
  using retrySend_bounded[of world_down bob_mail]
    retrySend_bounded[of world_flaky bob_mail 2 "''250 OK''"]
  by (simp add: world_down_def world_flaky_def RETRY_LIMIT_def delays_def numeral_2_eq_2)

section \<open>The ledger and the handler: basic facts\<close>

lemma cleanupAttempts_eq:
  "cleanupAttempts key w =
     (live w key, w\<lparr>ticks := ticks w + 1, sendAttempts := (sendAttempts w)(key \<mapsto> live w key)\<rparr>)"
  by (simp add: cleanupAttempts_def Date_now_def live_def stored_def Let_def)

lemma canSend_eq:
  "canSend key w =
     (length (live w key) < MAX_ATTEMPTS,
      w\<lparr>ticks := ticks w + 1, sendAttempts := (sendAttempts w)(key \<mapsto> live w key)\<rparr>)"
  by (simp add: canSend_def cleanupAttempts_eq Let_def)

lemma recordAttempt_eq:
  "recordAttempt key w =
     w\<lparr>ticks := ticks w + 2,
       sendAttempts := (sendAttempts w)(key \<mapsto> live w key @ [clock w (ticks w + 1)]),
       trace := trace w @ [Recorded key (clock w (ticks w + 1))]\<rparr>"
  by (simp add: recordAttempt_def cleanupAttempts_eq Date_now_def Let_def)

lemma handle_settle_frame:
  "sendAttempts (snd (handle_settle b r w)) = sendAttempts w"
  "clock (snd (handle_settle b r w)) = clock w"
  "ticks (snd (handle_settle b r w)) = ticks w"
  "transport (snd (handle_settle b r w)) = transport w"
  "calls (snd (handle_settle b r w)) = calls w"
  by (cases "(b, r, w)" rule: handle_settle.cases; simp add: console_def)+

lemma handle_invalid:
  "\<not> complete req \<Longrightarrow>
   handle e req w = (reply 400 False None (Some ''Missing email, username or code''), w)"
  by (auto simp: handle_def complete_def Let_def)

lemma handle_simulation:
  "complete req \<Longrightarrow> \<not> SMTP_CONFIGURED e \<Longrightarrow>
   handle e req w = (reply 200 True (Some True) None, console ''[SIMULATION] send-code'' w)"
  by (auto simp: handle_def complete_def Let_def)

lemma handle_admitted:
  "complete req \<Longrightarrow> SMTP_CONFIGURED e \<Longrightarrow> admitted req w \<Longrightarrow>
   handle e req w =
     handle_settle (payload_of req)
       (Inr (fst (retrySend (request_mail e (payload_of req)) (recorded req w))))
       (snd (retrySend (request_mail e (payload_of req)) (recorded req w)))"
  by (simp add: handle_def complete_def admitted_def recorded_def Let_def case_prod_beta)

lemma handle_not_admitted:
  "complete req \<Longrightarrow> SMTP_CONFIGURED e \<Longrightarrow> \<not> admitted req w \<Longrightarrow>
   handle e req w =
     (too_many,
      if fst (canSend (email (payload_of req)) w)
      then snd (canSend (ip_key req) (snd (canSend (email (payload_of req)) w)))
      else snd (canSend (email (payload_of req)) w))"
  by (auto simp add: handle_def complete_def admitted_def too_many_def Let_def case_prod_beta)

lemma status_handle_settle:
  "status (fst (handle_settle b r w)) = 200 \<or> status (fst (handle_settle b r w)) = 202"
  by (cases "(b, r, w)" rule: handle_settle.cases; simp add: reply_def)

lemma status_429_iff:
  "complete req \<Longrightarrow> SMTP_CONFIGURED e \<Longrightarrow>
   (status (fst (handle e req w)) = 429) = (\<not> admitted req w)"
proof (cases "admitted req w")
  case True
  assume c: "complete req" "SMTP_CONFIGURED e"
  show ?thesis
    using True status_handle_settle[of "payload_of req"
        "Inr (fst (retrySend (request_mail e (payload_of req)) (recorded req w)))"
        "snd (retrySend (request_mail e (payload_of req)) (recorded req w))"]
    by (auto simp: handle_admitted[OF c True])
next
  case False
  assume c: "complete req" "SMTP_CONFIGURED e"
  show ?thesis using False by (simp add: handle_not_admitted[OF c False] too_many_def reply_def)
qed

lemma stored_canSend:
  "stored (snd (canSend k w)) key = (if key = k then live w k else stored w key)"
  by (simp add: canSend_eq stored_def)

lemma stored_recordAttempt:
  "stored (recordAttempt k w) key
     = (if key = k then live w k @ [clock w (ticks w + 1)] else stored w key)"
  by (simp add: recordAttempt_eq stored_def)

lemma filter_recent_live:
  assumes "now - T < WINDOW_MS"
  shows "filter (\<lambda>t. now - t < WINDOW_MS \<and> T \<le> t) xs = filter (\<lambda>t::int. T \<le> t) xs"
  using assms by (intro filter_cong) auto

lemma recent_canSend:
  "clock w (ticks w) - T < WINDOW_MS \<Longrightarrow> recent T (snd (canSend k w)) key = recent T w key"
  by (simp add: stored_canSend recent_def live_def filter_recent_live)

lemma recent_recordAttempt:
  "clock w (ticks w) - T < WINDOW_MS \<Longrightarrow> T \<le> clock w (ticks w + 1) \<Longrightarrow>
   recent T (recordAttempt k w) key
     = recent T w key @ (if key = k then [clock w (ticks w + 1)] else [])"
  by (simp add: stored_recordAttempt recent_def live_def filter_recent_live)

lemma canSend_frame [simp]:
  "ticks (snd (canSend k w)) = ticks w + 1"
  "clock (snd (canSend k w)) = clock w"
  "calls (snd (canSend k w)) = calls w"
  "transport (snd (canSend k w)) = transport w"
  "FAILED_QUEUE (snd (canSend k w)) = FAILED_QUEUE w"
  "trace (snd (canSend k w)) = trace w"
  by (simp_all add: canSend_eq)

lemma recordAttempt_frame [simp]:
  "ticks (recordAttempt k w) = ticks w + 2"
  "clock (recordAttempt k w) = clock w"
  "calls (recordAttempt k w) = calls w"
  "transport (recordAttempt k w) = transport w"
  "FAILED_QUEUE (recordAttempt k w) = FAILED_QUEUE w"
  "trace (recordAttempt k w) = trace w @ [Recorded k (clock w (ticks w + 1))]"
  by (simp_all add: recordAttempt_eq)

lemma recorded_frame:
  "ticks (recorded req w) = ticks w + 6"
  "clock (recorded req w) = clock w"
  "calls (recorded req w) = calls w"
  "transport (recorded req w) = transport w"
  "FAILED_QUEUE (recorded req w) = FAILED_QUEUE w"
  "trace (recorded req w) =
     trace w @ [Recorded (email (payload_of req)) (clock w (ticks w + 3)),
                Recorded (ip_key req) (clock w (ticks w + 5))]"
  by (simp_all add: recorded_def numeral_eq_Suc)

lemma recent_recorded:
  assumes "in_window T w (ticks w + 6)"
  shows "length (recent T (recorded req w) (email (payload_of req)))
           \<ge> length (recent T w (email (payload_of req))) + 1"
proof -
  have r: "\<And>i. i < 6 \<Longrightarrow> T \<le> clock w (ticks w + i) \<and> clock w (ticks w + i) - T < WINDOW_MS"
    using assms by (simp add: in_window_def)
  let ?em = "email (payload_of req)" and ?ip = "ip_key req"
  let ?w1 = "snd (canSend ?em w)"
  let ?w2 = "snd (canSend ?ip ?w1)"
  let ?w3 = "recordAttempt ?em ?w2"
  have 1: "recent T ?w1 ?em = recent T w ?em"
    using r[of 0] by (simp add: recent_canSend)
  have 2: "recent T ?w2 ?em = recent T ?w1 ?em"
    using r[of 1] by (simp add: recent_canSend)
  have 3: "recent T ?w3 ?em = recent T ?w2 ?em @ [clock w (ticks w + 3)]"
    using r[of 2] r[of 3] by (simp add: recent_recordAttempt numeral_eq_Suc)
  have 4: "length (recent T (recordAttempt ?ip ?w3) ?em) \<ge> length (recent T ?w3 ?em)"
    using r[of 4] r[of 5] by (simp add: recent_recordAttempt numeral_eq_Suc)
  show ?thesis using 1 2 3 4 by (simp add: recorded_def)
qed

lemma handle_admitted_world:
  assumes "complete req" "SMTP_CONFIGURED e" "admitted req w"
  shows "sendAttempts (snd (handle e req w)) = sendAttempts (recorded req w)"
    and "ticks (snd (handle e req w)) = ticks w + 6"
    and "clock (snd (handle e req w)) = clock w"
    and "transport (snd (handle e req w)) = transport w"
  by (simp_all add: handle_admitted[OF assms] handle_settle_frame retrySend_frame recorded_frame)

lemma handle_not_admitted_world:
  assumes "complete req" "SMTP_CONFIGURED e" "\<not> admitted req w"
  shows "ticks w < ticks (snd (handle e req w))"
    and "clock (snd (handle e req w)) = clock w"
  by (simp_all add: handle_not_admitted[OF assms])

lemma recent_le_live:
  assumes "clock w (ticks w) - T < WINDOW_MS"
  shows "length (recent T w key) \<le> length (live w key)"
proof -
  have "recent T w key = filter (\<lambda>t. T \<le> t) (live w key)"
    using assms by (simp add: recent_def live_def filter_recent_live)
  then show ?thesis by simp
qed

lemma full_not_admitted:
  assumes "MAX_ATTEMPTS \<le> length (recent T w (email (payload_of req)))"
    and "clock w (ticks w) - T < WINDOW_MS"
  shows "\<not> admitted req w"
  using assms recent_le_live[OF assms(2), of "email (payload_of req)"]
  by (simp add: admitted_def canSend_eq)

lemma admitted_step:
  assumes c: "complete req" "SMTP_CONFIGURED e"
    and ok: "status (fst (handle e req w)) \<noteq> 429"
    and win: "in_window T w (ticks (snd (handle e req w)))"
  shows "length (recent T w (email (payload_of req))) + 1
           \<le> length (recent T (snd (handle e req w)) (email (payload_of req)))"
    and "ticks (snd (handle e req w)) = ticks w + 6"
    and "clock (snd (handle e req w)) = clock w"
proof -
  have a: "admitted req w" using ok status_429_iff[OF c, of w] by simp
  note hw = handle_admitted_world[OF c a]
  show "ticks (snd (handle e req w)) = ticks w + 6" by (rule hw(2))
  show "clock (snd (handle e req w)) = clock w" by (rule hw(3))
  have "in_window T w (ticks w + 6)" using win hw(2) by simp
  from recent_recorded[OF this, of req]
  show "length (recent T w (email (payload_of req))) + 1
           \<le> length (recent T (snd (handle e req w)) (email (payload_of req)))"
    by (simp add: recent_def stored_def hw(1))
qed

lemma fourth_rejected:
  assumes e: "SMTP_CONFIGURED e"
    and c: "complete r1" "complete r2" "complete r3" "complete r4"
    and same: "email (payload_of r2) = email (payload_of r1)"
              "email (payload_of r3) = email (payload_of r1)"
              "email (payload_of r4) = email (payload_of r1)"
    and w: "w1 = snd (handle e r1 w0)" "w2 = snd (handle e r2 w1)" "w3 = snd (handle e r3 w2)"
    and ok: "status (fst (handle e r1 w0)) \<noteq> 429" "status (fst (handle e r2 w1)) \<noteq> 429"
            "status (fst (handle e r3 w2)) \<noteq> 429"
    and win: "in_window T w0 (ticks (snd (handle e r4 w3)))"
  shows "status (fst (handle e r4 w3)) = 429"
proof (rule ccontr)
  assume n4: "status (fst (handle e r4 w3)) \<noteq> 429"
  let ?em = "email (payload_of r1)"
  let ?w4 = "snd (handle e r4 w3)"
  have a1: "admitted r1 w0" and a2: "admitted r2 w1" and a3: "admitted r3 w2"
    and a4: "admitted r4 w3"
    using ok n4 status_429_iff[OF c(1) e, of w0] status_429_iff[OF c(2) e, of w1]
      status_429_iff[OF c(3) e, of w2] status_429_iff[OF c(4) e, of w3] by simp_all
  have t1: "ticks w1 = ticks w0 + 6" and c1: "clock w1 = clock w0"
    using handle_admitted_world[OF c(1) e a1] w(1) by simp_all
  have t2: "ticks w2 = ticks w1 + 6" and c2: "clock w2 = clock w1"
    using handle_admitted_world[OF c(2) e a2] w(2) by simp_all
  have t3: "ticks w3 = ticks w2 + 6" and c3: "clock w3 = clock w2"
    using handle_admitted_world[OF c(3) e a3] w(3) by simp_all
  have t4: "ticks ?w4 = ticks w3 + 6"
    using handle_admitted_world[OF c(4) e a4] by simp
  have win1: "in_window T w0 (ticks (snd (handle e r1 w0)))"
    using win t1 t2 t3 t4 w by (simp add: in_window_def)
  have win2: "in_window T w1 (ticks (snd (handle e r2 w1)))"
    using win t1 t2 t3 t4 c1 w by (simp add: in_window_def)
  have win3: "in_window T w2 (ticks (snd (handle e r3 w2)))"
    using win t1 t2 t3 t4 c1 c2 w by (simp add: in_window_def)
  have r1: "1 \<le> length (recent T w1 ?em)"
    using admitted_step(1)[OF c(1) e ok(1) win1] w(1) by simp
  have r2: "2 \<le> length (recent T w2 ?em)"
    using admitted_step(1)[OF c(2) e ok(2) win2] w(2) same(1) r1 by simp
  have r3: "3 \<le> length (recent T w3 ?em)"
    using admitted_step(1)[OF c(3) e ok(3) win3] w(3) same(2) r2 by simp
  have "clock w3 (ticks w3) - T < WINDOW_MS"
    using win t1 t2 t3 t4 c1 c2 c3 by (simp add: in_window_def)
  with r3 have "\<not> admitted r4 w3"
    using full_not_admitted[of T w3 r4] same(3) by (simp add: MAX_ATTEMPTS_def)
  with a4 show False by simp
qed

section \<open>The background worker: properties\<close>

lemma worker_head:
  assumes "SMTP_CONFIGURED e" "FAILED_QUEUE w = it # rest" "attempts it < RETRY_LIMIT"
  shows "worker e w =
     worker_settle it (Inr (fst (retrySend (worker_mail e it) (w\<lparr>FAILED_QUEUE := rest\<rparr>))))
       (snd (retrySend (worker_mail e it) (w\<lparr>FAILED_QUEUE := rest\<rparr>)))"
  using assms by (simp add: worker_def Let_def case_prod_beta)

lemma worker_drop:
  assumes "SMTP_CONFIGURED e" "FAILED_QUEUE w = it # rest" "RETRY_LIMIT \<le> attempts it"
  shows "worker e w = console ''Dropping failed send after retries for'' (w\<lparr>FAILED_QUEUE := rest\<rparr>)"
  using assms by (simp add: worker_def Let_def)

lemma worker_empty: "FAILED_QUEUE w = [] \<Longrightarrow> worker e w = w"
  by (simp add: worker_def)

lemma worker_simulation: "\<not> SMTP_CONFIGURED e \<Longrightarrow> worker e w = w"
  by (simp add: worker_def)

lemma worker_settle_frame:
  "transport (worker_settle it r w) = transport w"
  "calls (worker_settle it r w) = calls w"
  "trace (worker_settle it r w) = trace w"
  "sendAttempts (worker_settle it r w) = sendAttempts w"
  by (cases "(it, r, w)" rule: worker_settle.cases; simp)+

lemma worker_transport: "transport (worker e w) = transport w"
proof (cases "SMTP_CONFIGURED e")
  case False
  then show ?thesis by (simp add: worker_simulation)
next
  case True
  show ?thesis
  proof (cases "FAILED_QUEUE w")
    case Nil
    then show ?thesis by (simp add: worker_empty)
  next
    case (Cons it rest)
    show ?thesis
    proof (cases "attempts it < RETRY_LIMIT")
      case t: True
      show ?thesis
        by (simp add: worker_head[OF True Cons t] worker_settle_frame retrySend_frame)
    next
      case False
      then have "RETRY_LIMIT \<le> attempts it" by simp
      from worker_drop[OF True Cons this] show ?thesis by (simp add: console_def)
    qed
  qed
qed

lemma worker_failing_head:
  assumes c: "SMTP_CONFIGURED e" and q: "FAILED_QUEUE w = it # rest"
    and a: "attempts it < RETRY_LIMIT"
    and f: "\<forall>k<RETRY_LIMIT. failed (transport w (calls w + k) (worker_mail e it))"
  shows "worker e w =
     w\<lparr>FAILED_QUEUE := rest @ [it\<lparr>attempts := attempts it + 1\<rparr>],
       calls := calls w + 3,
       trace := trace w @ [Sent (worker_mail e it), Slept 1000, Sent (worker_mail e it),
                           Slept 3000, Sent (worker_mail e it)]\<rparr>"
proof -
  let ?w1 = "w\<lparr>FAILED_QUEUE := rest\<rparr>"
  have "\<forall>k<RETRY_LIMIT. failed (transport ?w1 (calls ?w1 + k) (worker_mail e it))"
    using f by simp
  from retrySend_exhausted[OF this] obtain err where
    "retrySend (worker_mail e it) ?w1 =
       (NotOk (Some err), ?w1\<lparr>calls := calls ?w1 + 3,
          trace := trace ?w1 @ [Sent (worker_mail e it), Slept 1000, Sent (worker_mail e it),
                           Slept 3000, Sent (worker_mail e it)]\<rparr>)"
    by blast
  then show ?thesis by (simp add: worker_head[OF c q a])
qed

lemma worker_calls_bounds:
  assumes c: "SMTP_CONFIGURED e" and q: "FAILED_QUEUE w = it # rest"
    and a: "attempts it < RETRY_LIMIT"
  shows "calls w < calls (worker e w) \<and> calls (worker e w) \<le> calls w + RETRY_LIMIT"
  by (simp add: worker_head[OF c q a] worker_settle_frame retrySend_unrolled RETRY_LIMIT_def
      split: send_outcome.splits)

lemma worker_first_success:
  assumes c: "SMTP_CONFIGURED e" and q: "FAILED_QUEUE w = it # rest"
    and a: "attempts it < RETRY_LIMIT"
    and s: "\<not> failed (transport w (calls w) (worker_mail e it))"
  shows "worker e w =
     w\<lparr>FAILED_QUEUE := rest, calls := calls w + 1, trace := trace w @ [Sent (worker_mail e it)]\<rparr>"
proof -
  from s obtain i where "transport w (calls w) (worker_mail e it) = Fulfilled i"
    by (cases "transport w (calls w) (worker_mail e it)") simp_all
  then show ?thesis
    by (simp add: worker_head[OF c q a] retrySend_unrolled)
qed

lemma env_live_configured: "SMTP_CONFIGURED env_live"
  by (simp add: SMTP_CONFIGURED_def env_live_def)

text \<open>
  Claim C1 does not hold as stated. One worker cycle on a queue that holds one fresh item
  (\<open>attempts = 0\<close>), against a transport that refuses every message, hands the message to
  the transport three times and waits 1000 ms and 3000 ms in between: the worker calls
  \<open>retrySend\<close>, the bounded-retry variant, not a single \<open>sendMail\<close>.
\<close>

theorem worker_three_sends:
  "attempts (new_item bob) < RETRY_LIMIT
   \<and> calls (worker env_live world_down_queued) = 3
   \<and> length (filter is_Sent (trace (worker env_live world_down_queued))) = 3
   \<and> trace (worker env_live world_down_queued) =
       [Sent (worker_mail env_live (new_item bob)), Slept 1000,
        Sent (worker_mail env_live (new_item bob)), Slept 3000,
        Sent (worker_mail env_live (new_item bob))]"
proof -
  have q: "FAILED_QUEUE world_down_queued = new_item bob # []"
    by (simp add: world_down_queued_def world_down_def)
  have a: "attempts (new_item bob) < RETRY_LIMIT"
    by (simp add: new_item_def RETRY_LIMIT_def)
  have f: "\<forall>k<RETRY_LIMIT. failed (transport world_down_queued (calls world_down_queued + k)
              (worker_mail env_live (new_item bob)))"
    by (simp add: world_down_queued_def world_down_def)
  show ?thesis
    unfolding worker_failing_head[OF env_live_configured q a f]
    using a by (simp add: world_down_queued_def world_down_def)
qed

text \<open>
  Claim C1, amended. A worker cycle that processes a queued item whose \<open>attempts\<close> is below
  \<open>RETRY_LIMIT\<close> passes the item's message to \<open>retrySend\<close>, the bounded-retry variant: it
  makes at least one and at most \<open>RETRY_LIMIT\<close> sends for that item; exactly one when the
  first send succeeds; exactly \<open>RETRY_LIMIT\<close>, separated by the backoff delays, when every
  send fails.
\<close>

theorem worker_runs_retrySend:
  assumes "SMTP_CONFIGURED e" "FAILED_QUEUE w = it # rest" "attempts it < RETRY_LIMIT"
  shows "worker e w =
           worker_settle it
             (Inr (fst (retrySend (worker_mail e it) (w\<lparr>FAILED_QUEUE := rest\<rparr>))))
             (snd (retrySend (worker_mail e it) (w\<lparr>FAILED_QUEUE := rest\<rparr>)))
     \<and> calls w < calls (worker e w) \<and> calls (worker e w) \<le> calls w + RETRY_LIMIT
     \<and> (\<not> failed (transport w (calls w) (worker_mail e it)) \<longrightarrow>
          calls (worker e w) = calls w + 1
          \<and> trace (worker e w) = trace w @ [Sent (worker_mail e it)])
     \<and> ((\<forall>k<RETRY_LIMIT. failed (transport w (calls w + k) (worker_mail e it))) \<longrightarrow>
          calls (worker e w) = calls w + RETRY_LIMIT
          \<and> trace (worker e w) =
              trace w @ failed_attempts (worker_mail e it) (RETRY_LIMIT - 1)
                @ [Sent (worker_mail e it)])"
proof (intro conjI impI)
  show "worker e w =
           worker_settle it
             (Inr (fst (retrySend (worker_mail e it) (w\<lparr>FAILED_QUEUE := rest\<rparr>))))
             (snd (retrySend (worker_mail e it) (w\<lparr>FAILED_QUEUE := rest\<rparr>)))"
    by (rule worker_head[OF assms])
  show "calls w < calls (worker e w)" "calls (worker e w) \<le> calls w + RETRY_LIMIT"
    using worker_calls_bounds[OF assms] by simp_all
next
  assume s: "\<not> failed (transport w (calls w) (worker_mail e it))"
  show "calls (worker e w) = calls w + 1"
    "trace (worker e w) = trace w @ [Sent (worker_mail e it)]"
    by (simp_all add: worker_first_success[OF assms s])
next
  assume f: "\<forall>k<RETRY_LIMIT. failed (transport w (calls w + k) (worker_mail e it))"
  show "calls (worker e w) = calls w + RETRY_LIMIT"
    "trace (worker e w) =
              trace w @ failed_attempts (worker_mail e it) (RETRY_LIMIT - 1)
                @ [Sent (worker_mail e it)]"
    by (simp_all add: worker_failing_head[OF assms f] RETRY_LIMIT_def delays_def numeral_2_eq_2)
qed

theorem worker_runs_retrySend_witness:
  "calls (worker env_live world_up_queued) = 1
   \<and> trace (worker env_live world_up_queued) = [Sent (worker_mail env_live (new_item bob))]
   \<and> calls (worker env_live (world_down_queued\<lparr>calls := 5\<rparr>)) = 8"
  using worker_runs_retrySend[of env_live world_up_queued "new_item bob" "[]"]
    worker_runs_retrySend[of env_live "world_down_queued\<lparr>calls := 5\<rparr>" "new_item bob" "[]"]
  by (simp add: env_live_configured world_up_queued_def world_up_def world_down_queued_def
      world_down_def new_item_def RETRY_LIMIT_def retrySend_unrolled)

lemma worker_fixed: "FAILED_QUEUE w = [] \<Longrightarrow> (worker e ^^ k) w = w"
  by (induction k) (simp_all add: worker_empty)

lemma worker_always_failing:
  "\<forall>n m. failed (transport w n m) \<Longrightarrow> \<forall>n m. failed (transport (worker e w) n m)"
  by (simp add: worker_transport)

lemma worker_requeue:
  assumes "SMTP_CONFIGURED e" "\<forall>n m. failed (transport w n m)"
    "FAILED_QUEUE w = it # rest" "attempts it < RETRY_LIMIT"
  shows "FAILED_QUEUE (worker e w) = rest @ [it\<lparr>attempts := attempts it + 1\<rparr>]"
proof -
  have "\<forall>k<RETRY_LIMIT. failed (transport w (calls w + k) (worker_mail e it))"
    using assms(2) by simp
  from worker_failing_head[OF assms(1,3,4) this] show ?thesis by simp
qed

lemma worker_removes:
  assumes "SMTP_CONFIGURED e" "FAILED_QUEUE w = it # rest" "RETRY_LIMIT \<le> attempts it"
  shows "FAILED_QUEUE (worker e w) = rest" "calls (worker e w) = calls w"
    "filter is_Sent (trace (worker e w)) = filter is_Sent (trace w)"
  by (simp_all add: worker_drop[OF assms] console_def)

lemma lifecycle:
  assumes c: "SMTP_CONFIGURED e" and f: "\<forall>n m. failed (transport w n m)"
    and q: "FAILED_QUEUE w = [it]" and a: "attempts it = 0"
  shows "FAILED_QUEUE (worker e w) = [it\<lparr>attempts := 1\<rparr>]"
    and "FAILED_QUEUE (worker e (worker e w)) = [it\<lparr>attempts := 2\<rparr>]"
    and "FAILED_QUEUE (worker e (worker e (worker e w))) = [it\<lparr>attempts := 3\<rparr>]"
    and "FAILED_QUEUE (worker e (worker e (worker e (worker e w)))) = []"
    and "calls (worker e (worker e (worker e (worker e w)))) = calls (worker e (worker e (worker e w)))"
proof -
  let ?w1 = "worker e w"
  let ?w2 = "worker e ?w1"
  let ?w3 = "worker e ?w2"
  have f1: "\<forall>n m. failed (transport ?w1 n m)" by (rule worker_always_failing[OF f])
  have f2: "\<forall>n m. failed (transport ?w2 n m)" by (rule worker_always_failing[OF f1])
  show 1: "FAILED_QUEUE ?w1 = [it\<lparr>attempts := 1\<rparr>]"
    using worker_requeue[OF c f, of it "[]"] q a by (simp add: RETRY_LIMIT_def)
  show 2: "FAILED_QUEUE ?w2 = [it\<lparr>attempts := 2\<rparr>]"
    using worker_requeue[OF c f1, of "it\<lparr>attempts := 1\<rparr>" "[]"] 1 by (simp add: RETRY_LIMIT_def)
  show 3: "FAILED_QUEUE ?w3 = [it\<lparr>attempts := 3\<rparr>]"
    using worker_requeue[OF c f2, of "it\<lparr>attempts := 2\<rparr>" "[]"] 2 by (simp add: RETRY_LIMIT_def)
  show "FAILED_QUEUE (worker e ?w3) = []" "calls (worker e ?w3) = calls ?w3"
    using worker_removes[OF c, of ?w3 "it\<lparr>attempts := 3\<rparr>" "[]"] 3
    by (simp_all add: RETRY_LIMIT_def)
qed

text \<open>
  Claim C4 does not hold as stated. Starting from a queue that holds one fresh item, three
  worker cycles against a transport that refuses every message (nine sends) leave the
  item in the queue, with \<open>attempts = 3\<close>: the third failed cycle re-enqueues it like the
  first two.
\<close>

theorem item_survives_third_failure:
  "FAILED_QUEUE world_down_queued = [new_item bob]
   \<and> FAILED_QUEUE (worker env_live (worker env_live (worker env_live world_down_queued)))
       = [(new_item bob)\<lparr>attempts := 3\<rparr>]
   \<and> calls (worker env_live (worker env_live (worker env_live world_down_queued))) = 9"
proof -
  have f: "\<forall>n m. failed (transport world_down_queued n m)"
    by (simp add: world_down_queued_def world_down_def)
  have q: "FAILED_QUEUE world_down_queued = [new_item bob]"
    by (simp add: world_down_queued_def world_down_def)
  have a: "attempts (new_item bob) = 0" by (simp add: new_item_def)
  let ?w1 = "worker env_live world_down_queued"
  let ?w2 = "worker env_live ?w1"
  have f1: "\<forall>n m. failed (transport ?w1 n m)" by (rule worker_always_failing[OF f])
  have f2: "\<forall>n m. failed (transport ?w2 n m)" by (rule worker_always_failing[OF f1])
  note l = lifecycle[OF env_live_configured f q a]
  have b: "\<And>w it. FAILED_QUEUE w = [it] \<Longrightarrow> attempts it < RETRY_LIMIT \<Longrightarrow>
      \<forall>n m. failed (transport w n m) \<Longrightarrow> calls (worker env_live w) = calls w + 3"
  proof -
    fix w :: world and it :: item
    assume h: "FAILED_QUEUE w = [it]" "attempts it < RETRY_LIMIT"
      "\<forall>n m. failed (transport w n m)"
    then have "\<forall>k<RETRY_LIMIT. failed (transport w (calls w + k) (worker_mail env_live it))"
      by simp
    from worker_failing_head[OF env_live_configured h(1) h(2) this]
    show "calls (worker env_live w) = calls w + 3" by simp
  qed
  have c0: "calls world_down_queued = 0" by (simp add: world_down_queued_def world_down_def)
  have "calls ?w1 = 3" using b[OF q _ f] a c0 by (simp add: RETRY_LIMIT_def)
  moreover have "calls ?w2 = calls ?w1 + 3" using b[OF l(1) _ f1] by (simp add: RETRY_LIMIT_def)
  moreover have "calls (worker env_live ?w2) = calls ?w2 + 3"
    using b[OF l(2) _ f2] by (simp add: RETRY_LIMIT_def)
  ultimately show ?thesis using q l(3) by simp
qed

text \<open>
  Claim C4, amended. Against a transport that refuses every message, a worker cycle that
  takes an item with \<open>attempts < RETRY_LIMIT\<close> from the head of the queue puts it back at
  the tail with \<open>attempts\<close> increased by exactly 1; a cycle that takes an item with
  \<open>attempts \<ge> RETRY_LIMIT\<close> removes it and sends nothing. So an item pushed alone with
  \<open>attempts = 0\<close> has \<open>attempts\<close> 1, 2 and 3 after the first, second and third failed
  cycle, is removed by the fourth cycle, which sends nothing, and no later cycle changes
  anything.
\<close>

theorem queued_item_lifecycle:
  assumes "SMTP_CONFIGURED e" "\<forall>n m. failed (transport w n m)"
  shows "(FAILED_QUEUE w = it # rest \<and> attempts it < RETRY_LIMIT \<longrightarrow>
            FAILED_QUEUE (worker e w) = rest @ [it\<lparr>attempts := attempts it + 1\<rparr>])
       \<and> (FAILED_QUEUE w = it # rest \<and> RETRY_LIMIT \<le> attempts it \<longrightarrow>
            FAILED_QUEUE (worker e w) = rest \<and> calls (worker e w) = calls w)
       \<and> (FAILED_QUEUE w = [it] \<and> attempts it = 0 \<longrightarrow>
            FAILED_QUEUE (worker e w) = [it\<lparr>attempts := 1\<rparr>]
            \<and> FAILED_QUEUE (worker e (worker e w)) = [it\<lparr>attempts := 2\<rparr>]
            \<and> FAILED_QUEUE (worker e (worker e (worker e w))) = [it\<lparr>attempts := 3\<rparr>]
            \<and> FAILED_QUEUE (worker e (worker e (worker e (worker e w)))) = []
            \<and> calls (worker e (worker e (worker e (worker e w))))
                = calls (worker e (worker e (worker e w)))
            \<and> (\<forall>k. (worker e ^^ k) (worker e (worker e (worker e (worker e w))))
                    = worker e (worker e (worker e (worker e w)))))"
proof (intro conjI impI)
  assume "FAILED_QUEUE w = it # rest \<and> attempts it < RETRY_LIMIT"
  then show "FAILED_QUEUE (worker e w) = rest @ [it\<lparr>attempts := attempts it + 1\<rparr>]"
    using worker_requeue[OF assms] by blast
next
  assume h: "FAILED_QUEUE w = it # rest \<and> RETRY_LIMIT \<le> attempts it"
  then show "FAILED_QUEUE (worker e w) = rest" "calls (worker e w) = calls w"
    using worker_removes[OF assms(1), of w it rest] by simp_all
next
  assume h: "FAILED_QUEUE w = [it] \<and> attempts it = 0"
  then have q: "FAILED_QUEUE w = [it]" and a: "attempts it = 0" by simp_all
  note l = lifecycle[OF assms q a]
  show "FAILED_QUEUE (worker e w) = [it\<lparr>attempts := 1\<rparr>]" by (rule l(1))
  show "FAILED_QUEUE (worker e (worker e w)) = [it\<lparr>attempts := 2\<rparr>]" by (rule l(2))
  show "FAILED_QUEUE (worker e (worker e (worker e w))) = [it\<lparr>attempts := 3\<rparr>]" by (rule l(3))
  show "FAILED_QUEUE (worker e (worker e (worker e (worker e w)))) = []" by (rule l(4))
  show "calls (worker e (worker e (worker e (worker e w))))
                = calls (worker e (worker e (worker e w)))" by (rule l(5))
  show "\<forall>k. (worker e ^^ k) (worker e (worker e (worker e (worker e w))))
                    = worker e (worker e (worker e (worker e w)))"
    using worker_fixed[OF l(4)] by blast
qed

theorem queued_item_lifecycle_witness:
  "FAILED_QUEUE (worker env_live world_down_queued) = [(new_item bob)\<lparr>attempts := 1\<rparr>]
   \<and> FAILED_QUEUE (worker env_live (worker env_live (worker env_live world_down_queued)))
       = [(new_item bob)\<lparr>attempts := 3\<rparr>]
   \<and> FAILED_QUEUE
        (worker env_live (worker env_live (worker env_live (worker env_live world_down_queued))))
       = []
   \<and> FAILED_QUEUE
        (worker env_live (world_down\<lparr>FAILED_QUEUE := [(new_item bob)\<lparr>attempts := 3\<rparr>, new_item bob]\<rparr>))
       = [new_item bob]"
proof -
  have f: "\<forall>n m. failed (transport world_down_queued n m)"
    by (simp add: world_down_queued_def world_down_def)
  have q: "FAILED_QUEUE world_down_queued = [new_item bob] \<and> attempts (new_item bob) = 0"
    by (simp add: world_down_queued_def world_down_def new_item_def)
  let ?w = "world_down\<lparr>FAILED_QUEUE := [(new_item bob)\<lparr>attempts := 3\<rparr>, new_item bob]\<rparr>"
  have f': "\<forall>n m. failed (transport ?w n m)"
    by (simp add: world_down_def)
  have q': "FAILED_QUEUE ?w = (new_item bob)\<lparr>attempts := 3\<rparr> # [new_item bob]
      \<and> RETRY_LIMIT \<le> attempts ((new_item bob)\<lparr>attempts := 3\<rparr>)"
    by (simp add: RETRY_LIMIT_def)
  show ?thesis
    using queued_item_lifecycle[OF env_live_configured f, of "new_item bob" "[]"] q
      queued_item_lifecycle[OF env_live_configured f', of "(new_item bob)\<lparr>attempts := 3\<rparr>" "[new_item bob]"] q'
    by blast
qed

section \<open>Validation and simulation mode\<close>

lemma no_body: "body req = None \<Longrightarrow> \<not> complete req"
  by (simp add: complete_def payload_of_def empty_body_def)

text \<open>
  Claim C6. A request without a body, or in which any of \<open>email\<close>, \<open>username\<close>, \<open>code\<close>
  is absent or the empty string (whatever the other fields are), is answered with status
  400 and the message of line 106, in either mode, and the state is left as it was: no
  rate-limit check, no recording, no send, no console line.
\<close>

theorem missing_field_rejected:
  assumes "body req = None
     \<or> email (payload_of req) = Undefined \<or> email (payload_of req) = Str []
     \<or> username (payload_of req) = Undefined \<or> username (payload_of req) = Str []
     \<or> code (payload_of req) = Undefined \<or> code (payload_of req) = Str []"
  shows "handle e req w =
     (\<lparr>status = 400, ok = False, simulated = None,
       message = Some ''Missing email, username or code''\<rparr>, w)"
proof -
  have "\<not> complete req"
    using assms no_body[of req] by (auto simp: complete_def)
  then show ?thesis by (simp add: handle_invalid reply_def)
qed

theorem missing_field_rejected_witness:
  "handle env_live \<lparr>body = None, ip = Str ''10.0.0.7'', remoteAddress = Undefined\<rparr> world_up =
     (\<lparr>status = 400, ok = False, simulated = None,
       message = Some ''Missing email, username or code''\<rparr>, world_up)
   \<and> handle env_live (bob_request\<lparr>body := Some (bob\<lparr>code := Undefined\<rparr>)\<rparr>) world_up =
     (\<lparr>status = 400, ok = False, simulated = None,
       message = Some ''Missing email, username or code''\<rparr>, world_up)
   \<and> handle env_live (bob_request\<lparr>body := Some (bob\<lparr>email := Str []\<rparr>)\<rparr>) world_up =
     (\<lparr>status = 400, ok = False, simulated = None,
       message = Some ''Missing email, username or code''\<rparr>, world_up)
   \<and> handle env_live (bob_request\<lparr>body := Some (bob\<lparr>username := Str [], code := Str []\<rparr>)\<rparr>)
        world_up =
     (\<lparr>status = 400, ok = False, simulated = None,
       message = Some ''Missing email, username or code''\<rparr>, world_up)"
  using missing_field_rejected[of "\<lparr>body = None, ip = Str ''10.0.0.7'', remoteAddress = Undefined\<rparr>"
      env_live world_up]
    missing_field_rejected[of "bob_request\<lparr>body := Some (bob\<lparr>code := Undefined\<rparr>)\<rparr>" env_live world_up]
    missing_field_rejected[of "bob_request\<lparr>body := Some (bob\<lparr>email := Str []\<rparr>)\<rparr>" env_live world_up]
    missing_field_rejected[of "bob_request\<lparr>body := Some (bob\<lparr>username := Str [], code := Str []\<rparr>)\<rparr>"
      env_live world_up]
  by (simp add: payload_of_def bob_request_def bob_def)

text \<open>
  Claim C10. When the transport is not configured, a request that misses a required field
  is still answered with status 400 and no \<open>simulated\<close> field, and the state is unchanged:
  validation comes before the test of the simulation mode.
\<close>

theorem validation_precedes_simulation:
  assumes "\<not> SMTP_CONFIGURED e" "\<not> complete req"
  shows "status (fst (handle e req w)) = 400 \<and> \<not> ok (fst (handle e req w))
     \<and> simulated (fst (handle e req w)) = None \<and> snd (handle e req w) = w"
  using assms(2) by (simp add: handle_invalid reply_def)

lemma env_sim_unconfigured: "\<not> SMTP_CONFIGURED env_sim"
  by (simp add: SMTP_CONFIGURED_def env_sim_def)

lemma bob_complete: "complete bob_request"
  by (simp add: complete_def payload_of_def bob_request_def bob_def)

theorem validation_precedes_simulation_witness:
  "status (fst (handle env_sim (bob_request\<lparr>body := Some (bob\<lparr>code := Undefined\<rparr>)\<rparr>) world_down)) = 400
   \<and> simulated (fst (handle env_sim (bob_request\<lparr>body := Some (bob\<lparr>code := Undefined\<rparr>)\<rparr>) world_down))
       = None
   \<and> snd (handle env_sim (bob_request\<lparr>body := Some (bob\<lparr>code := Undefined\<rparr>)\<rparr>) world_down)
       = world_down"
proof -
  have "\<not> complete (bob_request\<lparr>body := Some (bob\<lparr>code := Undefined\<rparr>)\<rparr>)"
    by (simp add: complete_def payload_of_def)
  from validation_precedes_simulation[OF env_sim_unconfigured this, of world_down]
  show ?thesis by simp
qed

text \<open>
  Claim C9. When the transport is not configured, every request with its three fields
  present is answered with status 200, \<open>ok\<close> and \<open>simulated = true\<close>, whatever the ledger
  and the queue hold; the answer does not depend on them and the queue after the request
  is the queue before it; and a worker cycle leaves the whole state as it was.
\<close>

theorem simulation_mode_frame:
  assumes "\<not> SMTP_CONFIGURED e"
  shows "(complete req \<longrightarrow>
            fst (handle e req w) =
              \<lparr>status = 200, ok = True, simulated = Some True, message = None\<rparr>
            \<and> FAILED_QUEUE (snd (handle e req w)) = FAILED_QUEUE w
            \<and> fst (handle e req (w\<lparr>sendAttempts := s, FAILED_QUEUE := q\<rparr>))
                = fst (handle e req w))
     \<and> worker e w = w"
  using assms by (simp add: handle_simulation worker_simulation reply_def console_def)

theorem simulation_mode_frame_witness:
  "fst (handle env_sim bob_request world_busy) =
     \<lparr>status = 200, ok = True, simulated = Some True, message = None\<rparr>
   \<and> FAILED_QUEUE (snd (handle env_sim bob_request world_busy)) = [new_item bob]
   \<and> worker env_sim world_busy = world_busy"
  using simulation_mode_frame[OF env_sim_unconfigured, of bob_request world_busy] bob_complete
  by (simp add: world_busy_def)

text \<open>
  Claim C2 does not hold as stated. In simulation mode a complete request on a fresh
  process is answered with status 200 and \<open>simulated = true\<close>, and afterwards
  \<open>sendAttempts\<close> has no entry for the recipient nor for the caller's address, and the clock
  has not been read: the attempt is not recorded in the ledger.
\<close>

theorem simulation_records_nothing:
  "complete bob_request \<and> \<not> SMTP_CONFIGURED env_sim
   \<and> status (fst (handle env_sim bob_request world_down)) = 200
   \<and> simulated (fst (handle env_sim bob_request world_down)) = Some True
   \<and> sendAttempts (snd (handle env_sim bob_request world_down)) (email bob) = None
   \<and> sendAttempts (snd (handle env_sim bob_request world_down)) (ip_key bob_request) = None
   \<and> ticks (snd (handle env_sim bob_request world_down)) = ticks world_down"
  using bob_complete env_sim_unconfigured
  by (simp add: handle_simulation reply_def console_def world_down_def)

text \<open>
  Claim C2, amended. In simulation mode, for every request with its three fields present,
  the handler skips rate limiting, recording and sending: it writes one console line
  (\<open>[SIMULATION] send-code\<close>) and answers with status 200, \<open>ok\<close> and \<open>simulated = true\<close>;
  \<open>sendAttempts\<close>, the clock and the transport are untouched.
\<close>

theorem simulation_only_logs:
  assumes "\<not> SMTP_CONFIGURED e" "complete req"
  shows "handle e req w =
     (\<lparr>status = 200, ok = True, simulated = Some True, message = None\<rparr>,
      w\<lparr>trace := trace w @ [Console ''[SIMULATION] send-code'']\<rparr>)
     \<and> sendAttempts (snd (handle e req w)) = sendAttempts w
     \<and> ticks (snd (handle e req w)) = ticks w
     \<and> calls (snd (handle e req w)) = calls w
     \<and> filter is_Sent (trace (snd (handle e req w))) = filter is_Sent (trace w)"
  using assms by (simp add: handle_simulation reply_def console_def)

theorem simulation_only_logs_witness:
  "handle env_sim bob_request world_busy =
     (\<lparr>status = 200, ok = True, simulated = Some True, message = None\<rparr>,
      world_busy\<lparr>trace := [Console ''[SIMULATION] send-code'']\<rparr>)
   \<and> sendAttempts (snd (handle env_sim bob_request world_busy)) = sendAttempts world_busy"
  using simulation_only_logs[OF env_sim_unconfigured bob_complete, of world_busy]
  by (simp add: world_busy_def world_down_def)

section \<open>The send and queue branch\<close>

lemma retrySend_ok:
  assumes "\<exists>k<RETRY_LIMIT. \<not> failed (transport w (calls w + k) m)"
  shows "\<exists>i. fst (retrySend m w) = Ok i"
  using assms
  by (auto simp: RETRY_LIMIT_def ex_less_3 retrySend_unrolled split: send_outcome.splits)

lemma retrySend_not_ok:
  assumes "\<forall>k<RETRY_LIMIT. failed (transport w (calls w + k) m)"
  shows "\<exists>err. fst (retrySend m w) = NotOk err"
  using retrySend_exhausted[OF assms] by auto

lemma handle_delivered:
  assumes c: "complete req" "SMTP_CONFIGURED e" "admitted req w"
    and s: "\<exists>k<RETRY_LIMIT. \<not> failed (transport w (calls w + k) (request_mail e (payload_of req)))"
  shows "fst (handle e req w) = reply 200 True None None"
    and "FAILED_QUEUE (snd (handle e req w)) = FAILED_QUEUE w"
proof -
  let ?m = "request_mail e (payload_of req)"
  have "\<exists>k<RETRY_LIMIT. \<not> failed (transport (recorded req w) (calls (recorded req w) + k) ?m)"
    using s by (simp add: recorded_frame)
  from retrySend_ok[OF this] obtain i where i: "fst (retrySend ?m (recorded req w)) = Ok i" ..
  show "fst (handle e req w) = reply 200 True None None"
    by (simp add: handle_admitted[OF c] i)
  show "FAILED_QUEUE (snd (handle e req w)) = FAILED_QUEUE w"
    by (simp add: handle_admitted[OF c] i console_def retrySend_frame recorded_frame)
qed

lemma handle_queued:
  assumes c: "complete req" "SMTP_CONFIGURED e" "admitted req w"
    and f: "\<forall>k<RETRY_LIMIT. failed (transport w (calls w + k) (request_mail e (payload_of req)))"
  shows "fst (handle e req w) = reply 202 False None (Some ''Queued for retry'')"
    and "FAILED_QUEUE (snd (handle e req w)) = FAILED_QUEUE w @ [new_item (payload_of req)]"
proof -
  let ?m = "request_mail e (payload_of req)"
  have "\<forall>k<RETRY_LIMIT. failed (transport (recorded req w) (calls (recorded req w) + k) ?m)"
    using f by (simp add: recorded_frame)
  from retrySend_not_ok[OF this] obtain err where
    i: "fst (retrySend ?m (recorded req w)) = NotOk err" ..
  show "fst (handle e req w) = reply 202 False None (Some ''Queued for retry'')"
    by (simp add: handle_admitted[OF c] i)
  show "FAILED_QUEUE (snd (handle e req w)) = FAILED_QUEUE w @ [new_item (payload_of req)]"
    by (simp add: handle_admitted[OF c] i console_def retrySend_frame recorded_frame)
qed

text \<open>
  Claim C7. For a complete request that passes the admission test in normal mode, the
  handler always answers, with status 200 or 202: when one of the (at most three) sends
  succeeds the answer is 200 with \<open>ok\<close> and the queue is unchanged; when all three sends
  are rejected by the transport the answer is 202 \<open>Queued for retry\<close> and one item with the
  request's fields and \<open>attempts = 0\<close> is appended to the queue. An exception reaching the
  \<open>catch\<close> of line 140 would be answered in the same way.
\<close>

theorem transport_failure_is_queued:
  assumes "complete req" "SMTP_CONFIGURED e" "admitted req w"
  shows "((\<exists>k<RETRY_LIMIT. \<not> failed (transport w (calls w + k) (request_mail e (payload_of req))))
            \<longrightarrow>
            fst (handle e req w) = \<lparr>status = 200, ok = True, simulated = None, message = None\<rparr>
            \<and> FAILED_QUEUE (snd (handle e req w)) = FAILED_QUEUE w)
     \<and> ((\<forall>k<RETRY_LIMIT. failed (transport w (calls w + k) (request_mail e (payload_of req))))
            \<longrightarrow>
            fst (handle e req w) =
              \<lparr>status = 202, ok = False, simulated = None, message = Some ''Queued for retry''\<rparr>
            \<and> FAILED_QUEUE (snd (handle e req w)) =
                FAILED_QUEUE w @
                  [\<lparr>email = email (payload_of req), username = username (payload_of req),
                    code = code (payload_of req), attempts = 0\<rparr>])
     \<and> fst (handle_settle (payload_of req) (Inl x) v) =
          \<lparr>status = 202, ok = False, simulated = None, message = Some ''Queued for retry''\<rparr>
     \<and> FAILED_QUEUE (snd (handle_settle (payload_of req) (Inl x) v)) =
          FAILED_QUEUE v @
            [\<lparr>email = email (payload_of req), username = username (payload_of req),
              code = code (payload_of req), attempts = 0\<rparr>]
     \<and> (status (fst (handle e req w)) = 200 \<or> status (fst (handle e req w)) = 202)"
proof (intro conjI impI)
  assume s: "\<exists>k<RETRY_LIMIT. \<not> failed (transport w (calls w + k) (request_mail e (payload_of req)))"
  show "fst (handle e req w) = \<lparr>status = 200, ok = True, simulated = None, message = None\<rparr>"
    using handle_delivered(1)[OF assms s] by (simp add: reply_def)
  show "FAILED_QUEUE (snd (handle e req w)) = FAILED_QUEUE w"
    by (rule handle_delivered(2)[OF assms s])
next
  assume f: "\<forall>k<RETRY_LIMIT. failed (transport w (calls w + k) (request_mail e (payload_of req)))"
  show "fst (handle e req w) =
      \<lparr>status = 202, ok = False, simulated = None, message = Some ''Queued for retry''\<rparr>"
    using handle_queued(1)[OF assms f] by (simp add: reply_def)
  show "FAILED_QUEUE (snd (handle e req w)) =
                FAILED_QUEUE w @
                  [\<lparr>email = email (payload_of req), username = username (payload_of req),
                    code = code (payload_of req), attempts = 0\<rparr>]"
    using handle_queued(2)[OF assms f] by (simp add: new_item_def)
next
  show "fst (handle_settle (payload_of req) (Inl x) v) =
          \<lparr>status = 202, ok = False, simulated = None, message = Some ''Queued for retry''\<rparr>"
    by (simp add: reply_def)
  show "FAILED_QUEUE (snd (handle_settle (payload_of req) (Inl x) v)) =
          FAILED_QUEUE v @
            [\<lparr>email = email (payload_of req), username = username (payload_of req),
              code = code (payload_of req), attempts = 0\<rparr>]"
    by (simp add: new_item_def)
  show "status (fst (handle e req w)) = 200 \<or> status (fst (handle e req w)) = 202"
    unfolding handle_admitted[OF assms] by (rule status_handle_settle)
qed

lemma bob_admitted_fresh: "admitted bob_request world_down" "admitted bob_request world_up"
  "admitted bob_request world_flaky"
  by (simp_all add: admitted_def canSend_eq live_def stored_def world_down_def world_up_def
      world_flaky_def MAX_ATTEMPTS_def)

theorem transport_failure_is_queued_witness:
  "fst (handle env_live bob_request world_down) =
      \<lparr>status = 202, ok = False, simulated = None, message = Some ''Queued for retry''\<rparr>
   \<and> FAILED_QUEUE (snd (handle env_live bob_request world_down)) =
      [\<lparr>email = Str ''user@example.com'', username = Str ''bob'', code = Str ''123456'',
        attempts = 0\<rparr>]
   \<and> fst (handle env_live bob_request world_flaky) =
      \<lparr>status = 200, ok = True, simulated = None, message = None\<rparr>
   \<and> FAILED_QUEUE (snd (handle env_live bob_request world_flaky)) = []"
proof -
  have d: "\<forall>k<RETRY_LIMIT. failed (transport world_down (calls world_down + k)
              (request_mail env_live (payload_of bob_request)))"
    by (simp add: world_down_def)
  have u: "\<exists>k<RETRY_LIMIT. \<not> failed (transport world_flaky (calls world_flaky + k)
              (request_mail env_live (payload_of bob_request)))"
    by (rule exI[of _ 2]) (simp add: world_flaky_def world_down_def RETRY_LIMIT_def)
  have p: "payload_of bob_request = bob" by (simp add: payload_of_def bob_request_def)
  have q: "FAILED_QUEUE world_down = []" "FAILED_QUEUE world_flaky = []"
    by (simp_all add: world_down_def world_flaky_def)
  show ?thesis
    using transport_failure_is_queued[OF bob_complete env_live_configured bob_admitted_fresh(1)]
      transport_failure_is_queued[OF bob_complete env_live_configured bob_admitted_fresh(3)]
      d u q
    by (simp add: p bob_def)
qed

section \<open>Recording at admission\<close>

lemma live_subseq:
  "set (live w key) \<subseteq> set (stored w key)" "length (live w key) \<le> length (stored w key)"
  by (simp_all add: live_def)

lemma canSend_no_record:
  "set (stored (snd (canSend k w)) key) \<subseteq> set (stored w key)"
  "length (stored (snd (canSend k w)) key) \<le> length (stored w key)"
  using live_subseq[of w k] by (auto simp: stored_canSend)

lemma rejected_no_record:
  assumes "complete req" "SMTP_CONFIGURED e" "\<not> admitted req w"
  shows "set (stored (snd (handle e req w)) key) \<subseteq> set (stored w key)"
    and "length (stored (snd (handle e req w)) key) \<le> length (stored w key)"
proof -
  let ?w1 = "snd (canSend (email (payload_of req)) w)"
  have a: "set (stored (snd (canSend (ip_key req) ?w1)) key) \<subseteq> set (stored w key)"
    using canSend_no_record(1)[of "ip_key req" ?w1 key]
      canSend_no_record(1)[of "email (payload_of req)" w key] by blast
  have b: "length (stored (snd (canSend (ip_key req) ?w1)) key) \<le> length (stored w key)"
    using canSend_no_record(2)[of "ip_key req" ?w1 key]
      canSend_no_record(2)[of "email (payload_of req)" w key] by linarith
  show "set (stored (snd (handle e req w)) key) \<subseteq> set (stored w key)"
    using a canSend_no_record(1)[of "email (payload_of req)" w key]
    by (simp add: handle_not_admitted[OF assms])
  show "length (stored (snd (handle e req w)) key) \<le> length (stored w key)"
    using b canSend_no_record(2)[of "email (payload_of req)" w key]
    by (simp add: handle_not_admitted[OF assms])
qed

lemma retrySend_trace:
  "\<exists>tl. trace (snd (retrySend m w)) = trace w @ Sent m # tl \<and> filter is_Recorded tl = []"
  by (simp add: retrySend_unrolled split: send_outcome.splits)

lemma handle_settle_trace:
  "\<exists>l. trace (snd (handle_settle b r w)) = trace w @ [Console l]"
  by (cases "(b, r, w)" rule: handle_settle.cases; simp add: console_def)

lemma handle_admitted_trace:
  assumes "complete req" "SMTP_CONFIGURED e" "admitted req w"
  shows "\<exists>tl. trace (snd (handle e req w)) =
            trace w @ [Recorded (email (payload_of req)) (clock w (ticks w + 3)),
                       Recorded (ip_key req) (clock w (ticks w + 5)),
                       Sent (request_mail e (payload_of req))] @ tl
          \<and> filter is_Recorded tl = []"
proof -
  let ?m = "request_mail e (payload_of req)"
  obtain t1 where t1: "trace (snd (retrySend ?m (recorded req w)))
      = trace (recorded req w) @ Sent ?m # t1" "filter is_Recorded t1 = []"
    using retrySend_trace[of ?m "recorded req w"] by blast
  obtain l where l: "trace (snd (handle e req w))
      = trace (snd (retrySend ?m (recorded req w))) @ [Console l]"
    unfolding handle_admitted[OF assms]
    using handle_settle_trace[of "payload_of req"
        "Inr (fst (retrySend ?m (recorded req w)))" "snd (retrySend ?m (recorded req w))"]
    by blast
  have "trace (snd (handle e req w)) =
            trace w @ [Recorded (email (payload_of req)) (clock w (ticks w + 3)),
                       Recorded (ip_key req) (clock w (ticks w + 5)), Sent ?m] @ (t1 @ [Console l])"
    by (simp add: l t1(1) recorded_frame)
  moreover have "filter is_Recorded (t1 @ [Console l]) = []" using t1(2) by simp
  ultimately show ?thesis by blast
qed

text \<open>
  Claim C8. In normal mode, for a complete request that passes the admission test,
  \<open>retrySend\<close> starts in the state reached after \<open>recordAttempt(email)\<close> and
  \<open>recordAttempt(ip)\<close>: each of the two keys has got a new timestamp at the end of its
  list and no message has been sent yet. In the order of effects of the request, the two
  pushes on the ledger come first, the first message handed to the transport comes right
  after them, and nothing is pushed later, whatever the transport does; the ledger at the
  end of the request is the one \<open>retrySend\<close> started with. A request rejected by the rate
  limiter gets status 429, gains no timestamp under any key (lists are only purged),
  pushes and sends nothing; a request rejected by validation leaves the state unchanged.
\<close>

theorem attempts_recorded_at_admission:
  assumes "SMTP_CONFIGURED e"
  shows "(complete req \<and> admitted req w \<longrightarrow>
           (let em = email (payload_of req); ipk = ip_key req;
                w2 = snd (canSend ipk (snd (canSend em w)));
                w3 = recordAttempt em w2;
                w4 = recordAttempt ipk w3
            in handle e req w =
                 handle_settle (payload_of req)
                   (Inr (fst (retrySend (request_mail e (payload_of req)) w4)))
                   (snd (retrySend (request_mail e (payload_of req)) w4))
               \<and> stored w3 em = live w2 em @ [clock w (ticks w + 3)]
               \<and> stored w4 ipk = live w3 ipk @ [clock w (ticks w + 5)]
               \<and> (em \<noteq> ipk \<longrightarrow> stored w4 em = live w2 em @ [clock w (ticks w + 3)])
               \<and> calls w4 = calls w
               \<and> trace w4 = trace w @ [Recorded em (clock w (ticks w + 3)),
                                       Recorded ipk (clock w (ticks w + 5))]
               \<and> take 3 (drop (length (trace w)) (trace (snd (handle e req w)))) =
                   [Recorded em (clock w (ticks w + 3)), Recorded ipk (clock w (ticks w + 5)),
                    Sent (request_mail e (payload_of req))]
               \<and> filter is_Recorded (drop (length (trace w)) (trace (snd (handle e req w)))) =
                   [Recorded em (clock w (ticks w + 3)), Recorded ipk (clock w (ticks w + 5))]
               \<and> sendAttempts (snd (handle e req w)) = sendAttempts w4))
     \<and> (complete req \<and> \<not> admitted req w \<longrightarrow>
           status (fst (handle e req w)) = 429
           \<and> (\<forall>key. set (stored (snd (handle e req w)) key) \<subseteq> set (stored w key)
                    \<and> length (stored (snd (handle e req w)) key) \<le> length (stored w key))
           \<and> calls (snd (handle e req w)) = calls w
           \<and> trace (snd (handle e req w)) = trace w)
     \<and> (\<not> complete req \<longrightarrow>
           status (fst (handle e req w)) = 400 \<and> snd (handle e req w) = w)"
proof (intro conjI impI)
  assume h: "complete req \<and> admitted req w"
  then have c: "complete req" and a: "admitted req w" by simp_all
  let ?em = "email (payload_of req)" and ?ipk = "ip_key req"
  let ?w2 = "snd (canSend ?ipk (snd (canSend ?em w)))"
  let ?w3 = "recordAttempt ?em ?w2"
  let ?R = "[Recorded ?em (clock w (ticks w + 3)), Recorded ?ipk (clock w (ticks w + 5))]"
  have r: "recorded req w = recordAttempt ?ipk ?w3" by (simp add: recorded_def)
  have 1: "stored ?w3 ?em = live ?w2 ?em @ [clock w (ticks w + 3)]"
    by (simp add: stored_recordAttempt numeral_eq_Suc)
  have 2: "stored (recordAttempt ?ipk ?w3) ?ipk = live ?w3 ?ipk @ [clock w (ticks w + 5)]"
    by (simp add: stored_recordAttempt numeral_eq_Suc)
  have 3: "?em \<noteq> ?ipk \<longrightarrow>
      stored (recordAttempt ?ipk ?w3) ?em = live ?w2 ?em @ [clock w (ticks w + 3)]"
    using 1 by (simp add: stored_recordAttempt[of ?ipk ?w3 ?em])
  have 4: "calls (recordAttempt ?ipk ?w3) = calls w" "trace (recordAttempt ?ipk ?w3) = trace w @ ?R"
    using recorded_frame(3,6)[of req w] by (simp_all add: r)
  obtain tl where tl: "trace (snd (handle e req w)) =
       trace w @ [Recorded ?em (clock w (ticks w + 3)), Recorded ?ipk (clock w (ticks w + 5)),
                  Sent (request_mail e (payload_of req))] @ tl"
       "filter is_Recorded tl = []"
    using handle_admitted_trace[OF c assms a] by blast
  have 5: "take 3 (drop (length (trace w)) (trace (snd (handle e req w)))) =
       [Recorded ?em (clock w (ticks w + 3)), Recorded ?ipk (clock w (ticks w + 5)),
        Sent (request_mail e (payload_of req))]"
    by (simp add: tl(1))
  have 6: "filter is_Recorded (drop (length (trace w)) (trace (snd (handle e req w)))) = ?R"
    by (simp add: tl)
  have 7: "handle e req w =
     handle_settle (payload_of req)
       (Inr (fst (retrySend (request_mail e (payload_of req)) (recordAttempt ?ipk ?w3))))
       (snd (retrySend (request_mail e (payload_of req)) (recordAttempt ?ipk ?w3)))"
    using handle_admitted[OF c assms a] by (simp add: r)
  have 8: "sendAttempts (snd (handle e req w)) = sendAttempts (recordAttempt ?ipk ?w3)"
    using handle_admitted_world(1)[OF c assms a] by (simp add: r)
  show "let em = email (payload_of req); ipk = ip_key req;
                w2 = snd (canSend ipk (snd (canSend em w)));
                w3 = recordAttempt em w2;
                w4 = recordAttempt ipk w3
            in handle e req w =
                 handle_settle (payload_of req)
                   (Inr (fst (retrySend (request_mail e (payload_of req)) w4)))
                   (snd (retrySend (request_mail e (payload_of req)) w4))
               \<and> stored w3 em = live w2 em @ [clock w (ticks w + 3)]
               \<and> stored w4 ipk = live w3 ipk @ [clock w (ticks w + 5)]
               \<and> (em \<noteq> ipk \<longrightarrow> stored w4 em = live w2 em @ [clock w (ticks w + 3)])
               \<and> calls w4 = calls w
               \<and> trace w4 = trace w @ [Recorded em (clock w (ticks w + 3)),
                                       Recorded ipk (clock w (ticks w + 5))]
               \<and> take 3 (drop (length (trace w)) (trace (snd (handle e req w)))) =
                   [Recorded em (clock w (ticks w + 3)), Recorded ipk (clock w (ticks w + 5)),
                    Sent (request_mail e (payload_of req))]
               \<and> filter is_Recorded (drop (length (trace w)) (trace (snd (handle e req w)))) =
                   [Recorded em (clock w (ticks w + 3)), Recorded ipk (clock w (ticks w + 5))]
               \<and> sendAttempts (snd (handle e req w)) = sendAttempts w4"
    unfolding Let_def
    by (intro conjI) (rule 7 1 2 3 4 5 6 8)+
next
  assume h: "complete req \<and> \<not> admitted req w"
  then have c: "complete req" and a: "\<not> admitted req w" by simp_all
  show "status (fst (handle e req w)) = 429"
    using status_429_iff[OF c assms, of w] a by simp
  show "\<forall>key. set (stored (snd (handle e req w)) key) \<subseteq> set (stored w key)
                    \<and> length (stored (snd (handle e req w)) key) \<le> length (stored w key)"
    using rejected_no_record[OF c assms a] by blast
  show "calls (snd (handle e req w)) = calls w"
    by (simp add: handle_not_admitted[OF c assms a])
  show "trace (snd (handle e req w)) = trace w"
    by (simp add: handle_not_admitted[OF c assms a])
next
  assume "\<not> complete req"
  then show "status (fst (handle e req w)) = 400" "snd (handle e req w) = w"
    by (simp_all add: handle_invalid reply_def)
qed

lemmas run_defs = handle_def Let_def case_prod_beta canSend_eq recordAttempt_eq live_def stored_def
  retrySend_unrolled payload_of_def ip_key_def js_or_def bob_request_def bob_def
  env_live_configured world_down_def world_up_def world_flaky_def world_busy_def
  MAX_ATTEMPTS_def WINDOW_MS_def reply_def console_def new_item_def request_mail_def

lemma busy_not_admitted: "\<not> admitted bob_request world_busy"
  by (simp add: admitted_def run_defs)

lemma stored_cong: "sendAttempts w = sendAttempts w' \<Longrightarrow> stored w key = stored w' key"
  by (simp add: stored_def)

theorem attempts_recorded_at_admission_witness:
  "stored (snd (handle env_live bob_request world_down)) (Str ''user@example.com'') = [3]
   \<and> stored (snd (handle env_live bob_request world_down)) (Str ''10.0.0.7'') = [5]
   \<and> trace (snd (handle env_live bob_request world_down)) =
       [Recorded (Str ''user@example.com'') 3, Recorded (Str ''10.0.0.7'') 5,
        Sent bob_mail, Slept 1000, Sent bob_mail, Slept 3000, Sent bob_mail,
        Console ''Send failed, queuing for retry'']
   \<and> take 3 (trace (snd (handle env_live bob_request world_up))) =
       [Recorded (Str ''user@example.com'') 3, Recorded (Str ''10.0.0.7'') 5, Sent bob_mail]
   \<and> status (fst (handle env_live bob_request world_busy)) = 429
   \<and> stored (snd (handle env_live bob_request world_busy)) (Str ''user@example.com'') = [0, 0, 0]
   \<and> trace (snd (handle env_live bob_request world_busy)) = []
   \<and> snd (handle env_live (bob_request\<lparr>body := None\<rparr>) world_busy) = world_busy"
proof -
  note T = attempts_recorded_at_admission[OF env_live_configured]
  have "sendAttempts (snd (handle env_live bob_request world_down))
          = sendAttempts (recorded bob_request world_down)"
    using T[of bob_request world_down, unfolded Let_def] bob_complete bob_admitted_fresh(1)
    unfolding recorded_def by blast
  from stored_cong[OF this]
  have 1: "stored (snd (handle env_live bob_request world_down)) (Str ''user@example.com'') = [3]"
    and 2: "stored (snd (handle env_live bob_request world_down)) (Str ''10.0.0.7'') = [5]"
    by (simp_all add: recorded_def run_defs)
  have "take 3 (drop (length (trace world_up)) (trace (snd (handle env_live bob_request world_up))))
      = [Recorded (email (payload_of bob_request)) (clock world_up (ticks world_up + 3)),
         Recorded (ip_key bob_request) (clock world_up (ticks world_up + 5)),
         Sent (request_mail env_live (payload_of bob_request))]"
    using T[of bob_request world_up, unfolded Let_def] bob_complete bob_admitted_fresh(2)
    by blast
  then have 3: "take 3 (trace (snd (handle env_live bob_request world_up))) =
       [Recorded (Str ''user@example.com'') 3, Recorded (Str ''10.0.0.7'') 5, Sent bob_mail]"
    by (simp add: world_up_def world_down_def payload_of_def ip_key_def js_or_def
        bob_request_def bob_def bob_mail_def)
  have 4: "trace (snd (handle env_live bob_request world_down)) =
       [Recorded (Str ''user@example.com'') 3, Recorded (Str ''10.0.0.7'') 5,
        Sent bob_mail, Slept 1000, Sent bob_mail, Slept 3000, Sent bob_mail,
        Console ''Send failed, queuing for retry'']"
    by (simp add: run_defs bob_mail_def)
  have 5: "status (fst (handle env_live bob_request world_busy)) = 429"
    and 6: "trace (snd (handle env_live bob_request world_busy)) = trace world_busy"
    using T[of bob_request world_busy] bob_complete busy_not_admitted by simp_all
  have 7: "stored (snd (handle env_live bob_request world_busy)) (Str ''user@example.com'')
      = [0, 0, 0]"
    by (simp add: run_defs)
  have "\<not> complete (bob_request\<lparr>body := None\<rparr>)" by (simp add: no_body)
  then have 8: "snd (handle env_live (bob_request\<lparr>body := None\<rparr>) world_busy) = world_busy"
    using T[of "bob_request\<lparr>body := None\<rparr>" world_busy] by simp
  have 9: "trace world_busy = []" by (simp add: world_busy_def world_down_def)
  show ?thesis using 1 2 3 4 5 6 7 8 9 by simp
qed

section \<open>Rate limiting\<close>

lemma expired_admitted:
  assumes "\<forall>t \<in> set (stored w (email (payload_of req))). WINDOW_MS \<le> clock w (ticks w) - t"
    and "\<forall>t \<in> set (stored w (ip_key req)). WINDOW_MS \<le> clock w (ticks w + 1) - t"
  shows "admitted req w"
proof -
  let ?em = "email (payload_of req)" and ?ipk = "ip_key req"
  have 1: "live w ?em = []"
    using assms(1) by (auto simp: live_def filter_empty_conv)
  have "filter (\<lambda>t. clock w (ticks w + 1) - t < WINDOW_MS) (stored w ?ipk) = []"
    using assms(2) by (auto simp: filter_empty_conv)
  then have 2: "live (snd (canSend ?em w)) ?ipk = []"
    using 1 by (simp add: live_def stored_canSend)
  show ?thesis using 1 2 by (simp add: admitted_def canSend_eq MAX_ATTEMPTS_def)
qed

lemma fresh_since_empty: "sendAttempts w = Map.empty \<Longrightarrow> fresh_since T em w"
  by (simp add: fresh_since_def stored_def)

lemma live_all:
  assumes "\<forall>t \<in> set (stored w k). T \<le> t" "clock w (ticks w) - T < WINDOW_MS"
  shows "live w k = stored w k"
proof -
  have "\<forall>t \<in> set (stored w k). clock w (ticks w) - t < WINDOW_MS"
    using assms by fastforce
  then show ?thesis by (simp add: live_def)
qed

lemma canSend_fresh:
  assumes "fresh_since T em w" "clock w (ticks w) - T < WINDOW_MS"
  shows "stored (snd (canSend k w)) key = stored w key"
    and "fst (canSend k w) = (length (stored w k) < MAX_ATTEMPTS)"
    and "fresh_since T em (snd (canSend k w))"
proof -
  have l: "live w k = stored w k"
    using assms live_all[of w k T] by (simp add: fresh_since_def)
  show s: "\<And>key. stored (snd (canSend k w)) key = stored w key"
    by (simp add: stored_canSend l)
  show "fst (canSend k w) = (length (stored w k) < MAX_ATTEMPTS)"
    by (simp add: canSend_eq l)
  show "fresh_since T em (snd (canSend k w))"
    using assms(1) by (simp add: fresh_since_def s)
qed

lemma recordAttempt_fresh:
  assumes "fresh_since T em w" "clock w (ticks w) - T < WINDOW_MS"
  shows "stored (recordAttempt k w) key
           = stored w key @ (if key = k then [clock w (ticks w + 1)] else [])"
proof -
  have l: "live w k = stored w k"
    using assms live_all[of w k T] by (simp add: fresh_since_def)
  show ?thesis by (simp add: stored_recordAttempt l)
qed

lemma handle_fresh_rejected:
  assumes c: "complete req" "SMTP_CONFIGURED e" and na: "\<not> admitted req w"
    and inv: "fresh_since T (email (payload_of req)) w"
    and win: "in_window T w (ticks (snd (handle e req w)))"
  shows "stored (snd (handle e req w)) key = stored w key"
    and "MAX_ATTEMPTS \<le> length (stored w (email (payload_of req)))"
proof -
  let ?em = "email (payload_of req)" and ?ipk = "ip_key req"
  let ?w1 = "snd (canSend ?em w)"
  note h = handle_not_admitted[OF c na]
  have t0: "ticks w < ticks (snd (handle e req w))" by (simp add: h)
  then have r0: "clock w (ticks w) - T < WINDOW_MS"
    using win by (simp add: in_window_def)
  note cs = canSend_fresh[OF inv r0, of ?em]
  show "MAX_ATTEMPTS \<le> length (stored w ?em)"
  proof (cases "fst (canSend ?em w)")
    case False
    then show ?thesis using cs(2) by simp
  next
    case True
    then have t1: "ticks (snd (handle e req w)) = ticks w + 2" by (simp add: h)
    then have r1: "clock ?w1 (ticks ?w1) - T < WINDOW_MS"
      using win by (simp add: in_window_def)
    from True na have "\<not> fst (canSend ?ipk ?w1)" by (simp add: admitted_def)
    then have "MAX_ATTEMPTS \<le> length (stored ?w1 ?ipk)"
      using canSend_fresh(2)[OF cs(3) r1, of ?ipk] by simp
    then have "MAX_ATTEMPTS \<le> length (stored w ?ipk)" by (simp add: cs(1))
    moreover have "length (stored w ?ipk) \<le> length (stored w ?em)"
      using inv by (simp add: fresh_since_def)
    ultimately show ?thesis by simp
  qed
  show "stored (snd (handle e req w)) key = stored w key"
  proof (cases "fst (canSend ?em w)")
    case False
    then show ?thesis by (simp add: h cs(1))
  next
    case True
    then have t1: "ticks (snd (handle e req w)) = ticks w + 2" by (simp add: h)
    then have r1: "clock ?w1 (ticks ?w1) - T < WINDOW_MS"
      using win by (simp add: in_window_def)
    show ?thesis using True canSend_fresh(1)[OF cs(3) r1, of ?ipk key]
      by (simp add: h cs(1))
  qed
qed

lemma handle_fresh_admitted:
  assumes c: "complete req" "SMTP_CONFIGURED e" and a: "admitted req w"
    and inv: "fresh_since T (email (payload_of req)) w"
    and win: "in_window T w (ticks (snd (handle e req w)))"
  shows "stored (snd (handle e req w)) key
           = stored w key @ (if key = email (payload_of req) then [clock w (ticks w + 3)] else [])
               @ (if key = ip_key req then [clock w (ticks w + 5)] else [])"
    and "T \<le> clock w (ticks w + 3)" and "T \<le> clock w (ticks w + 5)"
proof -
  let ?em = "email (payload_of req)" and ?ipk = "ip_key req"
  let ?w1 = "snd (canSend ?em w)"
  let ?w2 = "snd (canSend ?ipk ?w1)"
  let ?w3 = "recordAttempt ?em ?w2"
  note hw = handle_admitted_world[OF c a]
  have r: "\<And>i. i < 6 \<Longrightarrow> T \<le> clock w (ticks w + i) \<and> clock w (ticks w + i) - T < WINDOW_MS"
    using win hw(2) by (simp add: in_window_def)
  show "T \<le> clock w (ticks w + 3)" "T \<le> clock w (ticks w + 5)"
    using r[of 3] r[of 5] by simp_all
  have r0: "clock w (ticks w) - T < WINDOW_MS" using r[of 0] by simp
  note c1 = canSend_fresh[OF inv r0, of ?em]
  have r1: "clock ?w1 (ticks ?w1) - T < WINDOW_MS" using r[of 1] by simp
  note c2 = canSend_fresh[OF c1(3) r1, of ?ipk]
  have r2: "clock ?w2 (ticks ?w2) - T < WINDOW_MS" using r[of 2] by (simp add: numeral_eq_Suc)
  have s3: "\<And>key. stored ?w3 key
      = stored w key @ (if key = ?em then [clock w (ticks w + 3)] else [])"
    using recordAttempt_fresh[OF c2(3) r2, of ?em] by (simp add: c2(1) c1(1) numeral_eq_Suc)
  have f3: "fresh_since T ?em ?w3"
    using inv r[of 3] by (auto simp: fresh_since_def s3 le_SucI)
  have r4: "clock ?w3 (ticks ?w3) - T < WINDOW_MS" using r[of 4] by (simp add: numeral_eq_Suc)
  have "stored (recorded req w) key
      = stored w key @ (if key = ?em then [clock w (ticks w + 3)] else [])
               @ (if key = ?ipk then [clock w (ticks w + 5)] else [])"
    using recordAttempt_fresh[OF f3 r4, of ?ipk key]
    by (simp add: recorded_def s3 numeral_eq_Suc)
  then show "stored (snd (handle e req w)) key
           = stored w key @ (if key = ?em then [clock w (ticks w + 3)] else [])
               @ (if key = ?ipk then [clock w (ticks w + 5)] else [])"
    by (simp add: stored_def hw(1))
qed

lemma handle_fresh_step:
  assumes c: "complete req" "SMTP_CONFIGURED e"
    and inv: "fresh_since T (email (payload_of req)) w"
    and win: "in_window T w (ticks (snd (handle e req w)))"
  shows "fresh_since T (email (payload_of req)) (snd (handle e req w))"
    and "length (stored w (email (payload_of req)))
           \<le> length (stored (snd (handle e req w)) (email (payload_of req)))"
    and "MAX_ATTEMPTS \<le> length (stored w (email (payload_of req)))
         \<or> length (stored w (email (payload_of req)))
             < length (stored (snd (handle e req w)) (email (payload_of req)))"
    and "clock (snd (handle e req w)) = clock w"
    and "ticks w < ticks (snd (handle e req w))"
proof -
  let ?em = "email (payload_of req)"
  let ?w' = "snd (handle e req w)"
  have "fresh_since T ?em ?w' \<and> length (stored w ?em) \<le> length (stored ?w' ?em)
      \<and> (MAX_ATTEMPTS \<le> length (stored w ?em) \<or> length (stored w ?em) < length (stored ?w' ?em))
      \<and> clock ?w' = clock w \<and> ticks w < ticks ?w'"
  proof (cases "admitted req w")
    case False
    note h = handle_fresh_rejected[OF c False inv win]
    have "fresh_since T ?em ?w'" using inv by (simp add: fresh_since_def h(1))
    then show ?thesis
      using h(2) handle_not_admitted_world[OF c False] by (simp add: h(1))
  next
    case True
    note h = handle_fresh_admitted[OF c True inv win]
    have "fresh_since T ?em ?w'"
      using inv h(2,3) by (auto simp: fresh_since_def h(1) le_SucI)
    then show ?thesis
      using handle_admitted_world[OF c True] by (simp add: h(1))
  qed
  then show "fresh_since T ?em ?w'" "length (stored w ?em) \<le> length (stored ?w' ?em)"
    "MAX_ATTEMPTS \<le> length (stored w ?em) \<or> length (stored w ?em) < length (stored ?w' ?em)"
    "clock ?w' = clock w" "ticks w < ticks ?w'"
    by simp_all
qed

lemma fourth_rejected_fresh:
  assumes e: "SMTP_CONFIGURED e"
    and c: "complete r1" "complete r2" "complete r3" "complete r4"
    and same: "email (payload_of r2) = email (payload_of r1)"
              "email (payload_of r3) = email (payload_of r1)"
              "email (payload_of r4) = email (payload_of r1)"
    and w: "w1 = snd (handle e r1 w0)" "w2 = snd (handle e r2 w1)" "w3 = snd (handle e r3 w2)"
    and start: "sendAttempts w0 = Map.empty"
    and win: "in_window T w0 (ticks (snd (handle e r4 w3)))"
  shows "status (fst (handle e r4 w3)) = 429"
proof -
  let ?em = "email (payload_of r1)"
  let ?w4 = "snd (handle e r4 w3)"
  have t4: "ticks w3 < ticks ?w4"
  proof (cases "admitted r4 w3")
    case True
    then show ?thesis using handle_admitted_world(2)[OF c(4) e True] by simp
  next
    case False
    then show ?thesis using handle_not_admitted_world(1)[OF c(4) e False] by simp
  qed
  have m: "\<And>req w. complete req \<Longrightarrow> ticks w < ticks (snd (handle e req w))
      \<and> clock (snd (handle e req w)) = clock w"
  proof -
    fix req and w :: world
    assume cr: "complete req"
    show "ticks w < ticks (snd (handle e req w)) \<and> clock (snd (handle e req w)) = clock w"
    proof (cases "admitted req w")
      case True
      then show ?thesis using handle_admitted_world[OF cr e True] by simp
    next
      case False
      then show ?thesis using handle_not_admitted_world[OF cr e False] by simp
    qed
  qed
  have t1: "ticks w0 < ticks w1" and c1: "clock w1 = clock w0" using m[OF c(1), of w0] w by simp_all
  have t2: "ticks w1 < ticks w2" and c2: "clock w2 = clock w1" using m[OF c(2), of w1] w by simp_all
  have t3: "ticks w2 < ticks w3" and c3: "clock w3 = clock w2" using m[OF c(3), of w2] w by simp_all
  have win1: "in_window T w0 (ticks (snd (handle e r1 w0)))"
    using win t1 t2 t3 t4 w by (simp add: in_window_def)
  have win2: "in_window T w1 (ticks (snd (handle e r2 w1)))"
    using win t1 t2 t3 t4 c1 w by (simp add: in_window_def)
  have win3: "in_window T w2 (ticks (snd (handle e r3 w2)))"
    using win t1 t2 t3 t4 c1 c2 w by (simp add: in_window_def)
  have win4: "in_window T w3 (ticks (snd (handle e r4 w3)))"
    using win t1 t2 t3 t4 c1 c2 c3 w by (simp add: in_window_def)
  have i0: "fresh_since T ?em w0" by (rule fresh_since_empty[OF start])
  note s1 = handle_fresh_step[OF c(1) e i0 win1, folded w(1)]
  have i1: "fresh_since T (email (payload_of r2)) w1" using s1(1) same(1) by simp
  note s2 = handle_fresh_step[OF c(2) e i1 win2, folded w(2), unfolded same(1)]
  have i2: "fresh_since T (email (payload_of r3)) w2" using s2(1) same(2) by simp
  note s3 = handle_fresh_step[OF c(3) e i2 win3, folded w(3), unfolded same(2)]
  have i3: "fresh_since T (email (payload_of r4)) w3" using s3(1) same(3) by simp
  have "MAX_ATTEMPTS \<le> length (stored w3 ?em)"
    using s1(2,3) s2(2,3) s3(2,3) by (auto simp: MAX_ATTEMPTS_def)
  moreover have "clock w3 (ticks w3) - T < WINDOW_MS"
    using win4 t4 by (simp add: in_window_def)
  ultimately have "\<not> fst (canSend (email (payload_of r4)) w3)"
    using canSend_fresh(2)[OF i3, of "email (payload_of r4)"] same(3) by simp
  then have "\<not> admitted r4 w3" by (simp add: admitted_def)
  then show ?thesis using status_429_iff[OF c(4) e, of w3] by simp
qed

lemmas eval_defs = handle_def Let_def case_prod_beta canSend_eq recordAttempt_eq live_def stored_def
  retrySend_unrolled payload_of_def ip_key_def js_or_def bob_request_def bob_def
  env_live_configured MAX_ATTEMPTS_def WINDOW_MS_def reply_def console_def new_item_def
  request_mail_def

text \<open>
  Claim C5. \<open>canSend(key)\<close> is true exactly when fewer than \<open>MAX_ATTEMPTS = 3\<close> of the key's
  timestamps are less than \<open>WINDOW_MS\<close> (15 minutes) old at the reading of the clock, and
  it stores the purged list. A complete request in normal mode is answered 429 exactly
  when \<open>canSend\<close> fails for the recipient or, after it, for the caller's address. Of four
  complete requests for one recipient handled while every reading of the clock lies in one
  window, the fourth is answered 429 \<open>Too many requests\<close>, both when the first three were
  not rate limited (from any ledger) and when the ledger was empty at the start. And a
  request made when every timestamp stored for its two keys is at least \<open>WINDOW_MS\<close> old
  is admitted again (status 200 or 202).
\<close>

theorem rate_limit_admission:
  "fst (canSend key w)
      = (length (filter (\<lambda>t. clock w (ticks w) - t < WINDOW_MS) (stored w key)) < MAX_ATTEMPTS)
   \<and> stored (snd (canSend key w)) key
      = filter (\<lambda>t. clock w (ticks w) - t < WINDOW_MS) (stored w key)
   \<and> MAX_ATTEMPTS = 3 \<and> WINDOW_MS = 900000
   \<and> (complete req \<and> SMTP_CONFIGURED e \<longrightarrow>
        (status (fst (handle e req w)) = 429)
          = (\<not> (fst (canSend (email (payload_of req)) w)
                \<and> fst (canSend (ip_key req) (snd (canSend (email (payload_of req)) w))))))
   \<and> (let w1 = snd (handle e r1 w); w2 = snd (handle e r2 w1); w3 = snd (handle e r3 w2)
      in SMTP_CONFIGURED e \<and> complete r1 \<and> complete r2 \<and> complete r3 \<and> complete r4
         \<and> email (payload_of r2) = email (payload_of r1)
         \<and> email (payload_of r3) = email (payload_of r1)
         \<and> email (payload_of r4) = email (payload_of r1)
         \<and> status (fst (handle e r1 w)) \<noteq> 429
         \<and> status (fst (handle e r2 w1)) \<noteq> 429
         \<and> status (fst (handle e r3 w2)) \<noteq> 429
         \<and> in_window T w (ticks (snd (handle e r4 w3)))
         \<longrightarrow> fst (handle e r4 w3) =
               \<lparr>status = 429, ok = False, simulated = None,
                message = Some ''Too many requests. Try later.''\<rparr>)
   \<and> (let w1 = snd (handle e r1 w); w2 = snd (handle e r2 w1); w3 = snd (handle e r3 w2)
      in SMTP_CONFIGURED e \<and> complete r1 \<and> complete r2 \<and> complete r3 \<and> complete r4
         \<and> email (payload_of r2) = email (payload_of r1)
         \<and> email (payload_of r3) = email (payload_of r1)
         \<and> email (payload_of r4) = email (payload_of r1)
         \<and> sendAttempts w = Map.empty
         \<and> in_window T w (ticks (snd (handle e r4 w3)))
         \<longrightarrow> fst (handle e r4 w3) =
               \<lparr>status = 429, ok = False, simulated = None,
                message = Some ''Too many requests. Try later.''\<rparr>)
   \<and> (complete req \<and> SMTP_CONFIGURED e
        \<and> (\<forall>t \<in> set (stored w (email (payload_of req))). WINDOW_MS \<le> clock w (ticks w) - t)
        \<and> (\<forall>t \<in> set (stored w (ip_key req)). WINDOW_MS \<le> clock w (ticks w + 1) - t)
        \<longrightarrow> status (fst (handle e req w)) = 200 \<or> status (fst (handle e req w)) = 202)"
proof (intro conjI)
  show "fst (canSend key w)
      = (length (filter (\<lambda>t. clock w (ticks w) - t < WINDOW_MS) (stored w key)) < MAX_ATTEMPTS)"
    by (simp add: canSend_eq live_def)
  show "stored (snd (canSend key w)) key
      = filter (\<lambda>t. clock w (ticks w) - t < WINDOW_MS) (stored w key)"
    by (simp add: stored_canSend live_def)
  show "MAX_ATTEMPTS = 3" by (simp add: MAX_ATTEMPTS_def)
  show "WINDOW_MS = 900000" by (simp add: WINDOW_MS_def)
  show "complete req \<and> SMTP_CONFIGURED e \<longrightarrow>
        (status (fst (handle e req w)) = 429)
          = (\<not> (fst (canSend (email (payload_of req)) w)
                \<and> fst (canSend (ip_key req) (snd (canSend (email (payload_of req)) w)))))"
    using status_429_iff[of req e w] by (simp add: admitted_def)
  show "let w1 = snd (handle e r1 w); w2 = snd (handle e r2 w1); w3 = snd (handle e r3 w2)
      in SMTP_CONFIGURED e \<and> complete r1 \<and> complete r2 \<and> complete r3 \<and> complete r4
         \<and> email (payload_of r2) = email (payload_of r1)
         \<and> email (payload_of r3) = email (payload_of r1)
         \<and> email (payload_of r4) = email (payload_of r1)
         \<and> status (fst (handle e r1 w)) \<noteq> 429
         \<and> status (fst (handle e r2 w1)) \<noteq> 429
         \<and> status (fst (handle e r3 w2)) \<noteq> 429
         \<and> in_window T w (ticks (snd (handle e r4 w3)))
         \<longrightarrow> fst (handle e r4 w3) =
               \<lparr>status = 429, ok = False, simulated = None,
                message = Some ''Too many requests. Try later.''\<rparr>"
    unfolding Let_def
  proof (intro impI, elim conjE)
    let ?w1 = "snd (handle e r1 w)"
    let ?w2 = "snd (handle e r2 ?w1)"
    let ?w3 = "snd (handle e r3 ?w2)"
    assume h: "SMTP_CONFIGURED e" "complete r1" "complete r2" "complete r3" "complete r4"
      "email (payload_of r2) = email (payload_of r1)"
      "email (payload_of r3) = email (payload_of r1)"
      "email (payload_of r4) = email (payload_of r1)"
      "status (fst (handle e r1 w)) \<noteq> 429"
      "status (fst (handle e r2 ?w1)) \<noteq> 429"
      "status (fst (handle e r3 ?w2)) \<noteq> 429"
      "in_window T w (ticks (snd (handle e r4 ?w3)))"
    have s: "status (fst (handle e r4 ?w3)) = 429"
      by (rule fourth_rejected[OF h(1-8) refl refl refl h(9-12)])
    then have "\<not> admitted r4 ?w3" using status_429_iff[OF h(5) h(1), of ?w3] by simp
    from handle_not_admitted[OF h(5) h(1) this]
    show "fst (handle e r4 ?w3) =
               \<lparr>status = 429, ok = False, simulated = None,
                message = Some ''Too many requests. Try later.''\<rparr>"
      by (simp add: too_many_def reply_def)
  qed
  show "let w1 = snd (handle e r1 w); w2 = snd (handle e r2 w1); w3 = snd (handle e r3 w2)
      in SMTP_CONFIGURED e \<and> complete r1 \<and> complete r2 \<and> complete r3 \<and> complete r4
         \<and> email (payload_of r2) = email (payload_of r1)
         \<and> email (payload_of r3) = email (payload_of r1)
         \<and> email (payload_of r4) = email (payload_of r1)
         \<and> sendAttempts w = Map.empty
         \<and> in_window T w (ticks (snd (handle e r4 w3)))
         \<longrightarrow> fst (handle e r4 w3) =
               \<lparr>status = 429, ok = False, simulated = None,
                message = Some ''Too many requests. Try later.''\<rparr>"
    unfolding Let_def
  proof (intro impI, elim conjE)
    let ?w1 = "snd (handle e r1 w)"
    let ?w2 = "snd (handle e r2 ?w1)"
    let ?w3 = "snd (handle e r3 ?w2)"
    assume h: "SMTP_CONFIGURED e" "complete r1" "complete r2" "complete r3" "complete r4"
      "email (payload_of r2) = email (payload_of r1)"
      "email (payload_of r3) = email (payload_of r1)"
      "email (payload_of r4) = email (payload_of r1)"
      "sendAttempts w = Map.empty"
      "in_window T w (ticks (snd (handle e r4 ?w3)))"
    have s: "status (fst (handle e r4 ?w3)) = 429"
      by (rule fourth_rejected_fresh[OF h(1-8) refl refl refl h(9,10)])
    then have "\<not> admitted r4 ?w3" using status_429_iff[OF h(5) h(1), of ?w3] by simp
    from handle_not_admitted[OF h(5) h(1) this]
    show "fst (handle e r4 ?w3) =
               \<lparr>status = 429, ok = False, simulated = None,
                message = Some ''Too many requests. Try later.''\<rparr>"
      by (simp add: too_many_def reply_def)
  qed
  show "complete req \<and> SMTP_CONFIGURED e
        \<and> (\<forall>t \<in> set (stored w (email (payload_of req))). WINDOW_MS \<le> clock w (ticks w) - t)
        \<and> (\<forall>t \<in> set (stored w (ip_key req)). WINDOW_MS \<le> clock w (ticks w + 1) - t)
        \<longrightarrow> status (fst (handle e req w)) = 200 \<or> status (fst (handle e req w)) = 202"
  proof (intro impI, elim conjE)
    assume h: "complete req" "SMTP_CONFIGURED e"
      "\<forall>t \<in> set (stored w (email (payload_of req))). WINDOW_MS \<le> clock w (ticks w) - t"
      "\<forall>t \<in> set (stored w (ip_key req)). WINDOW_MS \<le> clock w (ticks w + 1) - t"
    have a: "admitted req w" by (rule expired_admitted[OF h(3,4)])
    show "status (fst (handle e req w)) = 200 \<or> status (fst (handle e req w)) = 202"
      unfolding handle_admitted[OF h(1,2) a] by (rule status_handle_settle)
  qed
qed

lemma world_clock_fields:
  "sendAttempts world_clock = Map.empty" "ticks world_clock = 0" "calls world_clock = 0"
  "clock world_clock = (\<lambda>n. if n < 19 then int n else 900000 + int n)"
  "transport world_clock = (\<lambda>n m. Threw ''ECONNREFUSED'')"
  by (simp_all add: world_clock_def world_down_def)

lemma after1_fields:
  "sendAttempts after1 = [Str ''user@example.com'' \<mapsto> [3], Str ''10.0.0.7'' \<mapsto> [5]]"
  "ticks after1 = 6" "clock after1 = clock world_clock" "transport after1 = transport world_clock"
  "calls after1 = 3"
  "status (fst (handle env_live bob_request world_clock)) = 202"
  by (simp_all add: after1_def world_clock_fields eval_defs)

lemma after2_fields:
  "sendAttempts after2 = [Str ''user@example.com'' \<mapsto> [3, 9], Str ''10.0.0.7'' \<mapsto> [5, 11]]"
  "ticks after2 = 12" "clock after2 = clock world_clock" "transport after2 = transport world_clock"
  "calls after2 = 6"
  "status (fst (handle env_live bob_request after1)) = 202"
  by (simp_all add: after2_def after1_fields world_clock_fields eval_defs)

lemma after3_fields:
  "sendAttempts after3
     = [Str ''user@example.com'' \<mapsto> [3, 9, 15], Str ''10.0.0.7'' \<mapsto> [5, 11, 17]]"
  "ticks after3 = 18" "clock after3 = clock world_clock" "transport after3 = transport world_clock"
  "calls after3 = 9"
  "status (fst (handle env_live bob_request after2)) = 202"
  by (simp_all add: after3_def after2_fields world_clock_fields eval_defs)

lemma after4_fields:
  "sendAttempts after4
     = [Str ''10.0.0.7'' \<mapsto> [5, 11, 17], Str ''user@example.com'' \<mapsto> [3, 9, 15]]"
  "ticks after4 = 19" "clock after4 = clock world_clock" "transport after4 = transport world_clock"
  "calls after4 = 9"
  by (simp_all add: after4_def after3_fields world_clock_fields eval_defs)

theorem rate_limit_admission_witness:
  "fst (canSend (Str ''user@example.com'') after2)
   \<and> \<not> fst (canSend (Str ''user@example.com'') after3)
   \<and> fst (handle env_live bob_request after3) =
        \<lparr>status = 429, ok = False, simulated = None,
         message = Some ''Too many requests. Try later.''\<rparr>
   \<and> status (fst (handle env_live bob_request after4)) = 202"
proof -
  note R = rate_limit_admission[of _ _ bob_request env_live]
  have a: "fst (canSend (Str ''user@example.com'') after2)"
    using R[of "Str ''user@example.com''" after2]
    by (simp add: stored_def after2_fields world_clock_fields MAX_ATTEMPTS_def WINDOW_MS_def)
  have b: "\<not> fst (canSend (Str ''user@example.com'') after3)"
    using R[of "Str ''user@example.com''" after3]
    by (simp add: stored_def after3_fields world_clock_fields MAX_ATTEMPTS_def WINDOW_MS_def)
  have w: "in_window 0 world_clock (ticks (snd (handle env_live bob_request after3)))"
    using after4_fields(2)
    by (simp add: after4_def in_window_def world_clock_fields WINDOW_MS_def)
  have c: "fst (handle env_live bob_request after3) =
        \<lparr>status = 429, ok = False, simulated = None,
         message = Some ''Too many requests. Try later.''\<rparr>"
    using R[of "Str ''user@example.com''" world_clock bob_request bob_request bob_request
        bob_request 0, unfolded Let_def] bob_complete env_live_configured w
      after1_fields(6) after2_fields(6) after3_fields(6) world_clock_fields(1)
    unfolding after1_def[symmetric] after2_def[symmetric] after3_def[symmetric]
    by simp
  have e1: "\<forall>t \<in> set (stored after4 (email (payload_of bob_request))).
              WINDOW_MS \<le> clock after4 (ticks after4) - t"
    by (simp add: stored_def after4_fields world_clock_fields WINDOW_MS_def payload_of_def
        bob_request_def bob_def)
  have e2: "\<forall>t \<in> set (stored after4 (ip_key bob_request)).
              WINDOW_MS \<le> clock after4 (ticks after4 + 1) - t"
    by (simp add: stored_def after4_fields world_clock_fields WINDOW_MS_def ip_key_def js_or_def
        bob_request_def)
  have "status (fst (handle env_live bob_request after4)) = 200
      \<or> status (fst (handle env_live bob_request after4)) = 202"
    using rate_limit_admission[of _ after4 bob_request env_live] bob_complete env_live_configured
      e1 e2 by blast
  moreover have "status (fst (handle env_live bob_request after4)) \<noteq> 200"
    by (simp add: after4_fields world_clock_fields eval_defs)
  ultimately have d: "status (fst (handle env_live bob_request after4)) = 202" by blast
  show ?thesis using a b c d by blast
qed

end
